theory Spec2Isabelle
  imports Complex_Main "HOL-Library.AList" "HOL-Library.Log_Nat" "HOL-Library.Monad_Syntax"
begin

section \<open>JavaScript values used by the order manager\<close>

subsection \<open>Numbers\<close>

text \<open>
  A JavaScript \<open>number\<close> is an IEEE 754 double. A finite double is modelled by the
  rational it stands for, and the result of every arithmetic operation is rounded to
  the nearest double, ties to the even significand. The two zeros are one value: the
  program never divides by a zero, and nothing else it does tells them apart. A field
  of type \<open>number\<close> can also hold \<open>null\<close>, which is what \<open>JSON.parse\<close> reads where
  \<open>JSON.stringify\<close> wrote a \<open>NaN\<close> or an infinity.
\<close>

datatype number = Num rat | PosInf | NegInf | NaN | Null

text \<open>
  \<open>ilog2 x\<close> is the integer \<open>j\<close> with \<open>2^j \<le> |x| < 2^(j+1)\<close>, for \<open>x\<close> other than \<open>0\<close>:
  \<open>bitlen\<close> gives the number of binary digits of the numerator and of the
  denominator, and their difference is \<open>j\<close> or \<open>j + 1\<close>.
\<close>

definition ilog2 :: "rat \<Rightarrow> int" where
  "ilog2 x =
     (case quotient_of \<bar>x\<bar> of
        (p, q) \<Rightarrow>
          (let k = bitlen p - bitlen q in if 2 powi k \<le> \<bar>x\<bar> then k else k - 1))"

text \<open>The nearest integer, the even one of the two when \<open>x\<close> lies halfway.\<close>

definition round_half_even :: "rat \<Rightarrow> int" where
  "round_half_even x =
     (let f = \<lfloor>x\<rfloor>; d = x - of_int f in
      if d < 1 / 2 then f
      else if 1 / 2 < d then f + 1
      else if even f then f else f + 1)"

text \<open>
  \<open>fl x\<close> is the double nearest to \<open>x\<close>. A double is an integer of at most 53 binary
  digits times a power of two whose exponent is at least \<open>-1074\<close>; so \<open>x\<close> is
  rounded to a multiple of \<open>2^e\<close>, where \<open>e\<close> is \<open>ilog2 x - 52\<close> and at least \<open>-1074\<close>.
  A result of magnitude \<open>2^1024\<close> or more is an infinity.
\<close>

definition fl :: "rat \<Rightarrow> number" where
  "fl x =
     (if x = 0 then Num 0
      else
        (let e = max (ilog2 x - 52) (- 1074);
             y = of_int (round_half_even (\<bar>x\<bar> / 2 powi e)) * 2 powi e
         in if 2 ^ 1024 \<le> y then (if 0 < x then PosInf else NegInf)
            else Num (sgn x * y)))"

text \<open>\<open>null\<close> counts as \<open>0\<close> in arithmetic and in comparisons.\<close>

fun ToNumber :: "number \<Rightarrow> number" where
  "ToNumber Null = Num 0"
| "ToNumber x = x"

fun mul_double :: "number \<Rightarrow> number \<Rightarrow> number" where
  "mul_double (Num a) (Num b) = fl (a * b)"
| "mul_double (Num a) PosInf = (if a = 0 then NaN else if 0 < a then PosInf else NegInf)"
| "mul_double (Num a) NegInf = (if a = 0 then NaN else if 0 < a then NegInf else PosInf)"
| "mul_double PosInf (Num b) = (if b = 0 then NaN else if 0 < b then PosInf else NegInf)"
| "mul_double NegInf (Num b) = (if b = 0 then NaN else if 0 < b then NegInf else PosInf)"
| "mul_double PosInf PosInf = PosInf"
| "mul_double PosInf NegInf = NegInf"
| "mul_double NegInf PosInf = NegInf"
| "mul_double NegInf NegInf = PosInf"
| "mul_double _ _ = NaN"

definition num_times :: "number \<Rightarrow> number \<Rightarrow> number" where
  "num_times x y = mul_double (ToNumber x) (ToNumber y)"

text \<open>
  \<open>x / c\<close> for a literal \<open>c\<close> other than \<open>0\<close>: the only division of the program is by
  the literal \<open>10000\<close>.
\<close>

fun div_double :: "rat \<Rightarrow> number \<Rightarrow> number" where
  "div_double c (Num a) = fl (a / c)"
| "div_double c PosInf = (if 0 < c then PosInf else NegInf)"
| "div_double c NegInf = (if 0 < c then NegInf else PosInf)"
| "div_double c _ = NaN"

definition num_divide :: "number \<Rightarrow> rat \<Rightarrow> number" where
  "num_divide x c = div_double c (ToNumber x)"

fun sub_double :: "number \<Rightarrow> number \<Rightarrow> number" where
  "sub_double (Num a) (Num b) = fl (a - b)"
| "sub_double (Num a) PosInf = NegInf"
| "sub_double (Num a) NegInf = PosInf"
| "sub_double PosInf (Num b) = PosInf"
| "sub_double PosInf NegInf = PosInf"
| "sub_double NegInf (Num b) = NegInf"
| "sub_double NegInf PosInf = NegInf"
| "sub_double _ _ = NaN"

definition num_minus :: "number \<Rightarrow> number \<Rightarrow> number" where
  "num_minus x y = sub_double (ToNumber x) (ToNumber y)"

text \<open>Comparisons with \<open>NaN\<close> are false.\<close>

fun gt_double :: "number \<Rightarrow> number \<Rightarrow> bool" where
  "gt_double (Num a) (Num b) = (a > b)"
| "gt_double (Num a) NegInf = True"
| "gt_double PosInf (Num b) = True"
| "gt_double PosInf NegInf = True"
| "gt_double _ _ = False"

definition num_gt :: "number \<Rightarrow> number \<Rightarrow> bool" where
  "num_gt x y = gt_double (ToNumber x) (ToNumber y)"

fun le_double :: "number \<Rightarrow> number \<Rightarrow> bool" where
  "le_double (Num a) (Num b) = (a \<le> b)"
| "le_double (Num a) PosInf = True"
| "le_double NegInf (Num b) = True"
| "le_double NegInf PosInf = True"
| "le_double PosInf PosInf = True"
| "le_double NegInf NegInf = True"
| "le_double _ _ = False"

definition num_le :: "number \<Rightarrow> number \<Rightarrow> bool" where
  "num_le x y = le_double (ToNumber x) (ToNumber y)"

text \<open>
  Truthiness: \<open>0\<close>, \<open>NaN\<close> and \<open>null\<close> are falsy, and so is the empty string.
\<close>

fun truthy_num :: "number \<Rightarrow> bool" where
  "truthy_num (Num a) = (a \<noteq> 0)"
| "truthy_num PosInf = True"
| "truthy_num NegInf = True"
| "truthy_num NaN = False"
| "truthy_num Null = False"

text \<open>\<open>Number.isFinite\<close>.\<close>

fun isFinite :: "number \<Rightarrow> bool" where
  "isFinite (Num r) = True"
| "isFinite _ = False"

definition truthy_str :: "string \<Rightarrow> bool" where
  "truthy_str s = (s \<noteq> [])"

text \<open>\<open>a || b\<close> on strings, and on an optional string (\<open>undefined\<close> is falsy).\<close>

definition str_or :: "string \<Rightarrow> string \<Rightarrow> string" where
  "str_or a b = (if truthy_str a then a else b)"

fun opt_str_or :: "string option \<Rightarrow> string \<Rightarrow> string" where
  "opt_str_or None b = b"
| "opt_str_or (Some a) b = str_or a b"

subsection \<open>Strings: decimal printing, padding, splitting, parseInt\<close>

definition digit_char :: "nat \<Rightarrow> char" where
  "digit_char d = ''0123456789'' ! d"

text \<open>\<open>n.toString()\<close> for a non-negative integer.\<close>

fun toString_nat :: "nat \<Rightarrow> string" where
  "toString_nat n =
     (if n < 10 then [digit_char n] else toString_nat (n div 10) @ [digit_char (n mod 10)])"

declare toString_nat.simps [simp del]

text \<open>\<open>s.padStart(n, c)\<close> with a one-character filler.\<close>

definition padStart :: "nat \<Rightarrow> char \<Rightarrow> string \<Rightarrow> string" where
  "padStart n c s = replicate (n - length s) c @ s"

text \<open>\<open>s.split(c)\<close>: the pieces between the separators, empty pieces included.\<close>

fun split :: "char \<Rightarrow> string \<Rightarrow> string list" where
  "split c [] = [[]]"
| "split c (x # xs) =
     (if x = c then [] # split c xs
      else (case split c xs of [] \<Rightarrow> [[x]] | w # ws \<Rightarrow> (x # w) # ws))"

text \<open>\<open>xs[i]\<close>: \<open>undefined\<close> (here \<open>None\<close>) out of range.\<close>

definition index :: "'a list \<Rightarrow> nat \<Rightarrow> 'a option" where
  "index xs i = (if i < length xs then Some (xs ! i) else None)"

text \<open>
  \<open>parseInt(s)\<close> with no radix: leading white space is skipped, then an optional sign,
  then an optional \<open>0x\<close> prefix that selects radix 16, then the longest run of digits
  of the radix. No digit at all gives \<open>NaN\<close>; otherwise the result is the double
  nearest to the integer that was read (\<open>parseInt_str\<close>). A character of the model
  is a code unit below 256; the white space among these is the ASCII white space and
  the no-break space.
\<close>

definition is_space :: "char \<Rightarrow> bool" where
  "is_space c =
     (c \<in> set [CHR '' '', CHR 0x09, CHR 0x0A, CHR 0x0B, CHR 0x0C, CHR 0x0D, CHR 0xA0])"

definition digit_val :: "char \<Rightarrow> nat option" where
  "digit_val c =
     (let k = of_char c :: nat in
      if 48 \<le> k \<and> k \<le> 57 then Some (k - 48)
      else if 97 \<le> k \<and> k \<le> 122 then Some (k - 87)
      else if 65 \<le> k \<and> k \<le> 90 then Some (k - 55)
      else None)"

definition is_digit :: "nat \<Rightarrow> char \<Rightarrow> bool" where
  "is_digit radix c = (case digit_val c of None \<Rightarrow> False | Some d \<Rightarrow> d < radix)"

definition digits_value :: "nat \<Rightarrow> string \<Rightarrow> nat" where
  "digits_value radix ds =
     foldl (\<lambda>acc c. acc * radix + (case digit_val c of None \<Rightarrow> 0 | Some d \<Rightarrow> d)) 0 ds"

definition parse_digits :: "nat \<Rightarrow> string \<Rightarrow> nat option" where
  "parse_digits radix s =
     (let ds = takeWhile (is_digit radix) s in
      if ds = [] then None else Some (digits_value radix ds))"

definition strip_hex :: "string \<Rightarrow> nat \<times> string" where
  "strip_hex s =
     (if take 2 s = ''0x'' \<or> take 2 s = ''0X'' then (16, drop 2 s) else (10, s))"

definition parse_unsigned :: "string \<Rightarrow> nat option" where
  "parse_unsigned s = (case strip_hex s of (radix, r) \<Rightarrow> parse_digits radix r)"

definition parseInt_str :: "string \<Rightarrow> int option" where
  "parseInt_str s =
     (case dropWhile is_space s of
        [] \<Rightarrow> None
      | c # r \<Rightarrow>
          if c = CHR ''-'' then map_option (\<lambda>n. - int n) (parse_unsigned r)
          else if c = CHR ''+'' then map_option int (parse_unsigned r)
          else map_option int (parse_unsigned (c # r)))"

definition parseInt :: "string \<Rightarrow> number" where
  "parseInt s = (case parseInt_str s of None \<Rightarrow> NaN | Some i \<Rightarrow> fl (of_int i))"

section \<open>Types (src/types/index.ts)\<close>

datatype OrderStatus = PENDING | FULFILLED | FAILED | REFUNDED | CANCELLED

text \<open>The string value of each member of the enum.\<close>

fun status_string :: "OrderStatus \<Rightarrow> string" where
  "status_string PENDING = ''pending''"
| "status_string FULFILLED = ''fulfilled''"
| "status_string FAILED = ''failed''"
| "status_string REFUNDED = ''refunded''"
| "status_string CANCELLED = ''cancelled''"

text \<open>
  A JSON document. A quote is read from the body of an HTTP response, so its numbers
  are JSON numbers (never \<open>NaN\<close>), and a field of type \<open>any\<close> holds a document.
\<close>

datatype json =
    JNull
  | JBool bool
  | JNum rat
  | JStr string
  | JArr "json list"
  | JObj "(string \<times> json) list"

record SwapInfo =
  ammKey :: string
  label :: string
  inputMint :: string
  outputMint :: string
  inAmount :: string
  outAmount :: string
  feeAmount :: string
  feeMint :: string

record RouteStep =
  swapInfo :: SwapInfo
  percent :: rat

record JupiterQuote =
  inputMint :: string
  inAmount :: string
  outputMint :: string
  outAmount :: string
  otherAmountThreshold :: string
  swapMode :: string
  slippageBps :: rat
  platformFee :: json
  priceImpactPct :: string
  routePlan :: "RouteStep list"
  contextSlot :: rat
  timeTaken :: rat

text \<open>Of a swap transaction response the program reads two fields only.\<close>

record SwapTransaction =
  swapTransaction :: string
  lastValidBlockHeight :: number

record Order =
  id' :: string
  inputToken :: string
  outputToken :: string
  inputAmount :: number
  expectedOutputAmount :: number
  actualOutputAmount :: "number option"
  rate :: string
  creator :: string
  refundAddress :: string
  liquidityProvider :: string
  status :: OrderStatus
  timestamp :: number
  quote :: JupiterQuote
  transactionSignature :: "string option"
  errorMessage :: "string option"
  protocolFee :: number
  priceImpact :: string

record OrderCreationParams =
  inputToken :: string
  outputToken :: string
  inputAmount :: number
  rate :: "string option"
  liquidityProvider :: string
  refundAddress :: "string option"

record MaxLamports =
  maxLamports :: number
  priorityLevel :: string
  global :: "bool option"

record PriorityFeeConfig =
  priorityLevelWithMaxLamports :: "MaxLamports option"
  jitoTipLamports :: "number option"

record TransactionResult =
  signature :: string
  success :: bool
  error :: "string option"
  outputAmount :: "string option"

section \<open>Errors and external calls\<close>

text \<open>
  JavaScript can throw any value, and a promise can be rejected with any value. The
  handlers of the program read \<open>error.message\<close> of whatever they catch, so a thrown
  value is modelled by what that reading gives: an object with a message (an \<open>Error\<close>
  object; the message is taken to be a string), a value with no \<open>message\<close> property (a
  string, a number, a plain object), or \<open>undefined\<close> or \<open>null\<close>, of which no property
  can be read. A call that may throw returns a sum, \<open>Inl\<close> the thrown value. \<open>seq\<close>
  continues after a call that returned, \<open>catch\<close> is a
  \<open>try { ... } catch (error) { ... }\<close> block.
\<close>

datatype error = Error (message: string) | Messageless | ThrownUndefined | ThrownNull

text \<open>
  The \<open>TypeError\<close> that reading the property \<open>p\<close> of \<open>undefined\<close> or \<open>null\<close> throws.
  The wording of its message is the engine's; it is V8's here.
\<close>

definition TypeError_reading :: "string \<Rightarrow> string \<Rightarrow> error" where
  "TypeError_reading v p =
     Error (''Cannot read properties of '' @ v @ '' (reading '' @ [CHR 0x27] @ p @ [CHR 0x27]
            @ '')'')"

text \<open>\<open>error.message\<close>: the message, \<open>undefined\<close> (here \<open>None\<close>), or a \<open>TypeError\<close>.\<close>

fun get_message :: "error \<Rightarrow> error + string option" where
  "get_message (Error m) = Inr (Some m)"
| "get_message Messageless = Inr None"
| "get_message ThrownUndefined = Inl (TypeError_reading ''undefined'' ''message'')"
| "get_message ThrownNull = Inl (TypeError_reading ''null'' ''message'')"

text \<open>Whether a call throws \<open>undefined\<close> or \<open>null\<close>.\<close>

fun throws_nullish :: "error + 'a \<Rightarrow> bool" where
  "throws_nullish (Inl ThrownUndefined) = True"
| "throws_nullish (Inl ThrownNull) = True"
| "throws_nullish _ = False"

text \<open>A value in a template literal: \<open>undefined\<close> is printed as the word.\<close>

fun template :: "string option \<Rightarrow> string" where
  "template None = ''undefined''"
| "template (Some m) = m"

text \<open>\<open>n.toString()\<close> throws when \<open>n\<close> is \<open>null\<close>; the string itself is not modelled.\<close>

fun toString_throws :: "number \<Rightarrow> error + unit" where
  "toString_throws Null = Inl (TypeError_reading ''null'' ''toString'')"
| "toString_throws _ = Inr ()"

fun seq :: "error + 'a \<Rightarrow> ('a \<Rightarrow> error + 'b) \<Rightarrow> error + 'b" where
  "seq (Inl e) f = Inl e"
| "seq (Inr a) f = f a"

fun catch :: "error + 'a \<Rightarrow> (error \<Rightarrow> error + 'a) \<Rightarrow> error + 'a" where
  "catch (Inl e) h = h e"
| "catch (Inr a) h = Inr a"

text \<open>
  What \<open>fetch\<close> and the reading of the response give: \<open>fetch\<close> rejects; or the response
  is not ok, with its status and what \<open>response.json()\<close> gives for \<open>errorData.error\<close>; or
  the response is ok, with what \<open>response.json()\<close> gives.
\<close>

datatype 'a http =
    NetworkFailure error
  | HttpError nat "error + string option"
  | HttpOk "error + 'a"

text \<open>The query of \<open>GET /quote\<close> and the body of \<open>POST /swap\<close>.\<close>

record quote_request =
  inputMint :: string
  outputMint :: string
  amount :: number
  slippageBps :: number
  restrictIntermediateTokens :: string
  platformFeeBps :: "number option"

record swap_request =
  quoteResponse :: JupiterQuote
  userPublicKey :: string
  dynamicComputeUnitLimit :: bool
  dynamicSlippage :: bool
  prioritizationFeeLamports :: PriorityFeeConfig
  feeAccount :: "string option"
  destinationTokenAccount :: "string option"

record VersionedTransaction =
  recentBlockhash :: string
  payload :: string

text \<open>
  The wallet: its public key (\<open>null\<close> while not connected) and its signing function.
  A \<open>PublicKey\<close> is modelled by its base58 string.
\<close>

record wallet =
  publicKey :: "string option"
  signTransaction :: "VersionedTransaction \<Rightarrow> error + VersionedTransaction"

text \<open>
  The constants of \<open>@/utils/constants\<close>, which is not among the source files: they are
  parameters of the model.
\<close>

record CONFIG =
  DEFAULT_SLIPPAGE :: number
  PRIORITY_LEVEL :: string
  MAX_RETRIES :: number
  PROTOCOL_FEE_BPS :: number
  TREASURY_WALLET :: string

text \<open>
  The external collaborators of one call: the quote service behind \<open>fetch\<close>, the
  \<open>PublicKey\<close> constructor (which accepts a string or throws), the derivation of an
  associated token account, and the connection to the network. \<open>confirmTransaction\<close>
  gives \<open>JSON.stringify(confirmation.value.err)\<close> when that \<open>err\<close> is set.
\<close>

record world =
  config :: CONFIG
  fetch_quote :: "quote_request \<Rightarrow> JupiterQuote http"
  fetch_swap :: "swap_request \<Rightarrow> SwapTransaction http"
  PublicKey_valid :: "string \<Rightarrow> bool"
  getAssociatedTokenAddress :: "string \<Rightarrow> string \<Rightarrow> error + string"
  deserialize :: "string \<Rightarrow> error + VersionedTransaction"
  sendTransaction :: "VersionedTransaction \<Rightarrow> number \<Rightarrow> error + string"
  confirmTransaction :: "string \<Rightarrow> string \<Rightarrow> number \<Rightarrow> error + string option"

definition new_PublicKey :: "world \<Rightarrow> string \<Rightarrow> error + string" where
  "new_PublicKey w s =
     (if PublicKey_valid w s then Inr s else Inl (Error ''Invalid public key input''))"

section \<open>JupiterService (src/services/jupiterService.ts)\<close>

definition validateQuote :: "JupiterQuote \<Rightarrow> error + unit" where
  "validateQuote q =
     (if \<not> truthy_str (JupiterQuote.inputMint q) \<or> \<not> truthy_str (JupiterQuote.outputMint q)
      then Inl (Error ''Invalid quote: missing mint addresses'')
      else if \<not> truthy_str (JupiterQuote.inAmount q) \<or> \<not> truthy_str (JupiterQuote.outAmount q)
      then Inl (Error ''Invalid quote: missing amounts'')
      else Inr ())"

text \<open>Reading a response: \<open>if (!response.ok) throw ...; return await response.json()\<close>.\<close>

fun read_response :: "'a http \<Rightarrow> error + 'a" where
  "read_response (NetworkFailure e) = Inl e"
| "read_response (HttpError st errorData) =
     seq errorData (\<lambda>err. Inl (Error (opt_str_or err (''HTTP error! status: '' @ toString_nat st))))"
| "read_response (HttpOk body) = body"

text \<open>
  \<open>getQuote\<close>. The query is built from \<open>amount.toString()\<close> and
  \<open>slippageBps.toString()\<close>, which throw on \<open>null\<close>; the request is modelled with the
  numbers themselves.
\<close>

definition getQuote ::
  "world \<Rightarrow> string \<Rightarrow> string \<Rightarrow> number \<Rightarrow> number \<Rightarrow> number option \<Rightarrow> error + JupiterQuote" where
  "getQuote w inMint outMint amt slippage feeBps =
     catch
       (seq (toString_throws amt)
          (\<lambda>_. seq (toString_throws slippage)
          (\<lambda>_. seq (read_response (fetch_quote w
               \<lparr> quote_request.inputMint = inMint,
                 quote_request.outputMint = outMint,
                 amount = amt,
                 quote_request.slippageBps = slippage,
                 restrictIntermediateTokens = ''true'',
                 platformFeeBps =
                   (case feeBps of
                      None \<Rightarrow> None
                    | Some b \<Rightarrow> if truthy_num b \<and> num_gt b (Num 0) then Some b else None) \<rparr>))
          (\<lambda>q. seq (validateQuote q) (\<lambda>_. Inr q)))))
       (\<lambda>e. seq (get_message e) (\<lambda>m. Inl (Error (''Failed to get quote: '' @ template m))))"

record swap_options =
  feeAccount :: "string option"
  destinationTokenAccount :: "string option"
  priorityFeeConfig :: "PriorityFeeConfig option"
  dynamicSlippage :: "bool option"
  dynamicComputeUnitLimit :: "bool option"

text \<open>\<open>a ?? b\<close> on an optional boolean.\<close>

fun nullish_or :: "bool option \<Rightarrow> bool \<Rightarrow> bool" where
  "nullish_or None b = b"
| "nullish_or (Some a) b = a"

text \<open>\<open>userPublicKey.toString()\<close>: a \<open>TypeError\<close> when the key is \<open>null\<close>.\<close>

fun key_toString :: "string option \<Rightarrow> error + string" where
  "key_toString None = Inl (TypeError_reading ''null'' ''toString'')"
| "key_toString (Some k) = Inr k"

definition createSwapTransaction ::
  "world \<Rightarrow> JupiterQuote \<Rightarrow> string option \<Rightarrow> swap_options \<Rightarrow> error + SwapTransaction" where
  "createSwapTransaction w q userKey options =
     catch
       (seq (key_toString userKey)
          (\<lambda>k. read_response (fetch_swap w
                  \<lparr> quoteResponse = q,
                    userPublicKey = k,
                    swap_request.dynamicComputeUnitLimit =
                      nullish_or (swap_options.dynamicComputeUnitLimit options) True,
                    swap_request.dynamicSlippage =
                      nullish_or (swap_options.dynamicSlippage options) True,
                    prioritizationFeeLamports =
                      (case priorityFeeConfig options of
                         Some c \<Rightarrow> c
                       | None \<Rightarrow>
                           \<lparr> priorityLevelWithMaxLamports =
                               Some \<lparr> maxLamports = Num 1000000,
                                      priorityLevel = PRIORITY_LEVEL (config w),
                                      global = Some False \<rparr>,
                             jitoTipLamports = None \<rparr>),
                    swap_request.feeAccount = swap_options.feeAccount options,
                    swap_request.destinationTokenAccount =
                      swap_options.destinationTokenAccount options \<rparr>)))
       (\<lambda>e. seq (get_message e)
          (\<lambda>m. Inl (Error (''Failed to create swap transaction: '' @ template m))))"

definition executeSwap :: "world \<Rightarrow> wallet \<Rightarrow> SwapTransaction \<Rightarrow> error + TransactionResult" where
  "executeSwap w wl swapTx =
     catch
       (seq (deserialize w (swapTransaction swapTx))
          (\<lambda>tx. seq (signTransaction wl tx)
          (\<lambda>signedTx. seq (sendTransaction w signedTx (MAX_RETRIES (config w)))
          (\<lambda>sig. seq (confirmTransaction w sig (recentBlockhash tx) (lastValidBlockHeight swapTx))
          (\<lambda>err.
             (case err of
                Some e \<Rightarrow> Inl (Error (''Transaction failed: '' @ e))
              | None \<Rightarrow>
                  Inr \<lparr> signature = sig, success = True, error = None,
                        outputAmount = None \<rparr>))))))
       (\<lambda>e. seq (get_message e)
          (\<lambda>m. Inr \<lparr> signature = '''', success = False, error = m, outputAmount = None \<rparr>))"

text \<open>The argument of \<open>executeOrderSwap\<close>.\<close>

record order_swap =
  inputMint :: string
  outputMint :: string
  inputAmount :: number
  liquidityProvider :: string
  treasuryWallet :: string
  platformFeeBps :: number

definition executeOrderSwap :: "world \<Rightarrow> wallet \<Rightarrow> order_swap \<Rightarrow> error + TransactionResult" where
  "executeOrderSwap w wl ord =
     catch
       (seq (getQuote w (order_swap.inputMint ord) (order_swap.outputMint ord)
               (order_swap.inputAmount ord) (DEFAULT_SLIPPAGE (config w))
               (Some (order_swap.platformFeeBps ord)))
          (\<lambda>q. seq (new_PublicKey w (order_swap.inputMint ord))
          (\<lambda>inKey. seq (new_PublicKey w (order_swap.treasuryWallet ord))
          (\<lambda>treasuryKey. seq (getAssociatedTokenAddress w inKey treasuryKey)
          (\<lambda>treasuryTokenAccount. seq (new_PublicKey w (order_swap.outputMint ord))
          (\<lambda>outKey. seq (new_PublicKey w (order_swap.liquidityProvider ord))
          (\<lambda>lpKey. seq (getAssociatedTokenAddress w outKey lpKey)
          (\<lambda>lpTokenAccount. seq (createSwapTransaction w q (publicKey wl)
               \<lparr> swap_options.feeAccount = Some treasuryTokenAccount,
                 swap_options.destinationTokenAccount = Some lpTokenAccount,
                 priorityFeeConfig = None,
                 swap_options.dynamicSlippage = None,
                 swap_options.dynamicComputeUnitLimit = None \<rparr>)
          (\<lambda>swapTx. seq (executeSwap w wl swapTx)
          (\<lambda>result. Inr (result\<lparr> outputAmount := Some (JupiterQuote.outAmount q) \<rparr>)))))))))))
       (\<lambda>e. seq (get_message e)
          (\<lambda>m. Inr \<lparr> signature = '''', success = False, error = m, outputAmount = None \<rparr>))"

section \<open>JSON text of the order collection\<close>

text \<open>
  A string handed to \<open>JSON.parse\<close> is modelled up to the document it denotes: the empty
  string, a string that is not JSON, or the text of a document. \<open>JSON.stringify\<close> writes
  the text of a document and \<open>JSON.parse\<close> reads it back.
\<close>

datatype json_text = EmptyText | Malformed | Text json

fun JSON_parse :: "json_text \<Rightarrow> error + json" where
  "JSON_parse (Text d) = Inr d"
| "JSON_parse _ = Inl (Error ''Unexpected end of JSON input'')"

text \<open>
  What \<open>JSON.stringify\<close> writes for the values of the program. A number that is
  \<open>NaN\<close> or an infinity is written \<open>null\<close>; a property that is \<open>undefined\<close> is left
  out. The order of the properties of an object is not modelled: they are written in
  the order of the interface.
\<close>

fun number_json :: "number \<Rightarrow> json" where
  "number_json (Num r) = JNum r"
| "number_json _ = JNull"

definition optional :: "string \<Rightarrow> ('a \<Rightarrow> json) \<Rightarrow> 'a option \<Rightarrow> (string \<times> json) list" where
  "optional k enc v = (case v of None \<Rightarrow> [] | Some a \<Rightarrow> [(k, enc a)])"

definition SwapInfo_json :: "SwapInfo \<Rightarrow> json" where
  "SwapInfo_json i = JObj
     [(''ammKey'', JStr (ammKey i)),
      (''label'', JStr (label i)),
      (''inputMint'', JStr (SwapInfo.inputMint i)),
      (''outputMint'', JStr (SwapInfo.outputMint i)),
      (''inAmount'', JStr (SwapInfo.inAmount i)),
      (''outAmount'', JStr (SwapInfo.outAmount i)),
      (''feeAmount'', JStr (feeAmount i)),
      (''feeMint'', JStr (feeMint i))]"

definition RouteStep_json :: "RouteStep \<Rightarrow> json" where
  "RouteStep_json r = JObj
     [(''swapInfo'', SwapInfo_json (swapInfo r)),
      (''percent'', JNum (percent r))]"

definition JupiterQuote_json :: "JupiterQuote \<Rightarrow> json" where
  "JupiterQuote_json q = JObj
     [(''inputMint'', JStr (JupiterQuote.inputMint q)),
      (''inAmount'', JStr (JupiterQuote.inAmount q)),
      (''outputMint'', JStr (JupiterQuote.outputMint q)),
      (''outAmount'', JStr (JupiterQuote.outAmount q)),
      (''otherAmountThreshold'', JStr (otherAmountThreshold q)),
      (''swapMode'', JStr (swapMode q)),
      (''slippageBps'', JNum (JupiterQuote.slippageBps q)),
      (''platformFee'', platformFee q),
      (''priceImpactPct'', JStr (priceImpactPct q)),
      (''routePlan'', JArr (map RouteStep_json (routePlan q))),
      (''contextSlot'', JNum (contextSlot q)),
      (''timeTaken'', JNum (timeTaken q))]"

definition Order_json :: "Order \<Rightarrow> json" where
  "Order_json order = JObj
     ([(''id'', JStr (id' order)),
       (''inputToken'', JStr (Order.inputToken order)),
       (''outputToken'', JStr (Order.outputToken order)),
       (''inputAmount'', number_json (Order.inputAmount order)),
       (''expectedOutputAmount'', number_json (expectedOutputAmount order))]
      @ optional ''actualOutputAmount'' number_json (actualOutputAmount order)
      @ [(''rate'', JStr (Order.rate order)),
         (''creator'', JStr (creator order)),
         (''refundAddress'', JStr (Order.refundAddress order)),
         (''liquidityProvider'', JStr (Order.liquidityProvider order)),
         (''status'', JStr (status_string (status order))),
         (''timestamp'', number_json (timestamp order)),
         (''quote'', JupiterQuote_json (quote order))]
      @ optional ''transactionSignature'' JStr (transactionSignature order)
      @ optional ''errorMessage'' JStr (errorMessage order)
      @ [(''protocolFee'', number_json (protocolFee order)),
         (''priceImpact'', JStr (priceImpact order))])"

text \<open>\<open>JSON.stringify(Array.from(this.orders.entries()))\<close>.\<close>

definition entries_json :: "(string \<times> Order) list \<Rightarrow> json" where
  "entries_json es = JArr (map (\<lambda>(k, order). JArr [JStr k, Order_json order]) es)"

text \<open>
  The parsed document is used as a \<open>[string, Order][]\<close> without any check. The readers
  below give the order that a document holds, and \<open>None\<close> when it holds none (a string
  where the interface has a number, for one): the program would then run on values
  that are outside its types, and outside this model. A \<open>null\<close> where the interface
  has a number is read as it is: the program writes such documents itself.
\<close>

fun read_string :: "json \<Rightarrow> string option" where
  "read_string (JStr s) = Some s"
| "read_string _ = None"

fun read_rat :: "json \<Rightarrow> rat option" where
  "read_rat (JNum r) = Some r"
| "read_rat _ = None"

fun read_number :: "json \<Rightarrow> number option" where
  "read_number (JNum r) = Some (Num r)"
| "read_number JNull = Some Null"
| "read_number _ = None"

definition read_status :: "json \<Rightarrow> OrderStatus option" where
  "read_status j =
     (case read_string j of
        None \<Rightarrow> None
      | Some s \<Rightarrow>
          if s = ''pending'' then Some PENDING
          else if s = ''fulfilled'' then Some FULFILLED
          else if s = ''failed'' then Some FAILED
          else if s = ''refunded'' then Some REFUNDED
          else if s = ''cancelled'' then Some CANCELLED
          else None)"

text \<open>A required property, and an optional one (\<open>undefined\<close> when it is absent).\<close>

definition required :: "(string \<times> json) list \<Rightarrow> string \<Rightarrow> (json \<Rightarrow> 'a option) \<Rightarrow> 'a option" where
  "required ps k rd = (case map_of ps k of None \<Rightarrow> None | Some v \<Rightarrow> rd v)"

definition absent_or ::
  "(string \<times> json) list \<Rightarrow> string \<Rightarrow> (json \<Rightarrow> 'a option) \<Rightarrow> 'a option option" where
  "absent_or ps k rd = (case map_of ps k of None \<Rightarrow> Some None | Some v \<Rightarrow> map_option Some (rd v))"

fun read_list :: "('b \<Rightarrow> 'a option) \<Rightarrow> 'b list \<Rightarrow> 'a list option" where
  "read_list rd [] = Some []"
| "read_list rd (j # js) =
     (case rd j of
        None \<Rightarrow> None
      | Some a \<Rightarrow> (case read_list rd js of None \<Rightarrow> None | Some as \<Rightarrow> Some (a # as)))"

fun read_array :: "(json \<Rightarrow> 'a option) \<Rightarrow> json \<Rightarrow> 'a list option" where
  "read_array rd (JArr js) = read_list rd js"
| "read_array rd _ = None"

fun read_SwapInfo :: "json \<Rightarrow> SwapInfo option" where
  "read_SwapInfo (JObj ps) =
     do {
       a \<leftarrow> required ps ''ammKey'' read_string;
       b \<leftarrow> required ps ''label'' read_string;
       c \<leftarrow> required ps ''inputMint'' read_string;
       d \<leftarrow> required ps ''outputMint'' read_string;
       e \<leftarrow> required ps ''inAmount'' read_string;
       f \<leftarrow> required ps ''outAmount'' read_string;
       g \<leftarrow> required ps ''feeAmount'' read_string;
       h \<leftarrow> required ps ''feeMint'' read_string;
       Some \<lparr> ammKey = a, label = b, SwapInfo.inputMint = c, SwapInfo.outputMint = d,
              SwapInfo.inAmount = e, SwapInfo.outAmount = f, feeAmount = g, feeMint = h \<rparr>
     }"
| "read_SwapInfo _ = None"

fun read_RouteStep :: "json \<Rightarrow> RouteStep option" where
  "read_RouteStep (JObj ps) =
     do {
       a \<leftarrow> required ps ''swapInfo'' read_SwapInfo;
       b \<leftarrow> required ps ''percent'' read_rat;
       Some \<lparr> swapInfo = a, percent = b \<rparr>
     }"
| "read_RouteStep _ = None"

fun read_JupiterQuote :: "json \<Rightarrow> JupiterQuote option" where
  "read_JupiterQuote (JObj ps) =
     do {
       a \<leftarrow> required ps ''inputMint'' read_string;
       b \<leftarrow> required ps ''inAmount'' read_string;
       c \<leftarrow> required ps ''outputMint'' read_string;
       d \<leftarrow> required ps ''outAmount'' read_string;
       e \<leftarrow> required ps ''otherAmountThreshold'' read_string;
       f \<leftarrow> required ps ''swapMode'' read_string;
       g \<leftarrow> required ps ''slippageBps'' read_rat;
       h \<leftarrow> required ps ''platformFee'' Some;
       i \<leftarrow> required ps ''priceImpactPct'' read_string;
       j \<leftarrow> required ps ''routePlan'' (read_array read_RouteStep);
       k \<leftarrow> required ps ''contextSlot'' read_rat;
       l \<leftarrow> required ps ''timeTaken'' read_rat;
       Some \<lparr> JupiterQuote.inputMint = a, JupiterQuote.inAmount = b,
              JupiterQuote.outputMint = c, JupiterQuote.outAmount = d,
              otherAmountThreshold = e, swapMode = f, JupiterQuote.slippageBps = g,
              platformFee = h, priceImpactPct = i, routePlan = j, contextSlot = k,
              timeTaken = l \<rparr>
     }"
| "read_JupiterQuote _ = None"

fun read_Order :: "json \<Rightarrow> Order option" where
  "read_Order (JObj ps) =
     do {
       a \<leftarrow> required ps ''id'' read_string;
       b \<leftarrow> required ps ''inputToken'' read_string;
       c \<leftarrow> required ps ''outputToken'' read_string;
       d \<leftarrow> required ps ''inputAmount'' read_number;
       e \<leftarrow> required ps ''expectedOutputAmount'' read_number;
       f \<leftarrow> absent_or ps ''actualOutputAmount'' read_number;
       g \<leftarrow> required ps ''rate'' read_string;
       h \<leftarrow> required ps ''creator'' read_string;
       i \<leftarrow> required ps ''refundAddress'' read_string;
       j \<leftarrow> required ps ''liquidityProvider'' read_string;
       k \<leftarrow> required ps ''status'' read_status;
       l \<leftarrow> required ps ''timestamp'' read_number;
       m \<leftarrow> required ps ''quote'' read_JupiterQuote;
       n \<leftarrow> absent_or ps ''transactionSignature'' read_string;
       p \<leftarrow> absent_or ps ''errorMessage'' read_string;
       q \<leftarrow> required ps ''protocolFee'' read_number;
       r \<leftarrow> required ps ''priceImpact'' read_string;
       Some \<lparr> id' = a, Order.inputToken = b, Order.outputToken = c, Order.inputAmount = d,
              expectedOutputAmount = e, actualOutputAmount = f, Order.rate = g, creator = h,
              Order.refundAddress = i, Order.liquidityProvider = j, status = k,
              timestamp = l, quote = m, transactionSignature = n, errorMessage = p,
              protocolFee = q, priceImpact = r \<rparr>
     }"
| "read_Order _ = None"

text \<open>
  \<open>new Map(d)\<close> for a parsed document \<open>d\<close>. The document must be \<open>null\<close> (which
  gives the empty map) or iterable: an array, or a string, whose items are its
  characters. Every item must be an object, an array or a plain one; the key and the
  value of the entry are its properties \<open>0\<close> and \<open>1\<close>, \<open>undefined\<close> (here \<open>None\<close>) when
  it has none. Otherwise \<open>new Map\<close> throws a \<open>TypeError\<close>: the result is \<open>None\<close>.
\<close>

fun items_of :: "json \<Rightarrow> json list option" where
  "items_of JNull = Some []"
| "items_of (JArr xs) = Some xs"
| "items_of (JStr s) = Some (map (\<lambda>c. JStr [c]) s)"
| "items_of _ = None"

fun entry_of :: "json \<Rightarrow> (json option \<times> json option) option" where
  "entry_of (JArr xs) = Some (index xs 0, index xs 1)"
| "entry_of (JObj ps) = Some (map_of ps ''0'', map_of ps ''1'')"
| "entry_of _ = None"

definition Map_entries :: "json \<Rightarrow> (json option \<times> json option) list option" where
  "Map_entries d = (case items_of d of None \<Rightarrow> None | Some xs \<Rightarrow> read_list entry_of xs)"

text \<open>
  The keys of the entries as strings: \<open>None\<close> when a key is not a string.
\<close>

fun string_key :: "json option \<times> json option \<Rightarrow> (string \<times> json option) option" where
  "string_key (Some (JStr k), v) = Some (k, v)"
| "string_key _ = None"

text \<open>The value of an entry as an order: \<open>None\<close> when it is not one.\<close>

fun read_value :: "string \<times> json option \<Rightarrow> (string \<times> Order) option" where
  "read_value (k, Some v) = (case read_Order v of None \<Rightarrow> None | Some order \<Rightarrow> Some (k, order))"
| "read_value (k, None) = None"

text \<open>
  \<open>new Map(entries)\<close>: the entries are set one after the other, so a later entry
  replaces the value of an earlier one with the same key, at the earlier one's place.
\<close>

definition new_Map :: "('k \<times> 'v) list \<Rightarrow> ('k \<times> 'v) list" where
  "new_Map es = foldl (\<lambda>m (k, v). AList.update k v m) [] es"

section \<open>OrderManager (src/services/orderManger.ts)\<close>

text \<open>
  The browser's \<open>localStorage\<close> as the manager uses it: whether \<open>window\<close> is defined,
  whether \<open>getItem\<close> and \<open>setItem\<close> throw, and the item stored under the key
  \<open>jupiter_orders\<close>.
\<close>

record localStorage =
  window_defined :: bool
  getItem_throws :: bool
  setItem_throws :: bool
  jupiter_orders :: "json_text option"

text \<open>
  The fields of the class, and the storage it writes to. The \<open>Map\<close> of orders is an
  association list in insertion order: \<open>get\<close> is \<open>map_of\<close>, \<open>set\<close> is
  \<open>AList.update\<close> (a known key keeps its place, a new one goes last). The \<open>Map\<close>
  holds each order as an object, and an operation changes the object it has looked up;
  in the model the object is the value stored under the id.

  \<open>orderIdCounter\<close> is a \<open>number\<close> in the source. It only ever holds a count, and the
  model keeps a natural number. Up to \<open>2^53\<close> a double holds every natural number, and
  prints it in full; what is proved about the counter is stated for counters below
  \<open>2^53\<close>.
\<close>

record OrderManager =
  orders :: "(string \<times> Order) list"
  protocolFeeBps :: number
  treasuryWallet :: string
  orderIdCounter :: nat
  storage :: localStorage

definition persistOrders :: "OrderManager \<Rightarrow> OrderManager" where
  "persistOrders s =
     (if window_defined (storage s) \<and> \<not> setItem_throws (storage s)
      then s\<lparr> storage :=
               (storage s)\<lparr> jupiter_orders := Some (Text (entries_json (orders s))) \<rparr> \<rparr>
      else s)"

text \<open>
  \<open>parseInt(id.split('_')[2]) || 0\<close>, as the integer that \<open>parseInt\<close> reads: up to
  \<open>2^53\<close> that integer is the number that \<open>parseInt\<close> returns.
\<close>

definition id_number :: "string \<Rightarrow> int" where
  "id_number k =
     (case index (split CHR ''_'' k) 2 of
        None \<Rightarrow> 0
      | Some piece \<Rightarrow> (case parseInt_str piece of None \<Rightarrow> 0 | Some i \<Rightarrow> i))"

text \<open>\<open>Math.max(0, ...xs)\<close> on integers.\<close>

definition Math_max0 :: "int list \<Rightarrow> int" where
  "Math_max0 xs = foldl max 0 xs"

text \<open>
  \<open>loadPersistedOrders\<close>. Whatever is thrown inside the \<open>try\<close> block is caught, and the
  handler empties the collection: when \<open>getItem\<close> throws, when the text is not JSON,
  when \<open>new Map\<close> rejects the document, and when a key is not a string, so that
  \<open>id.split\<close> throws after the collection was assigned. The result is \<open>None\<close> when
  every key is a string and a value is not an order: such a collection is outside
  the types of the program, and outside the model.
\<close>

definition loadPersistedOrders :: "OrderManager \<Rightarrow> OrderManager option" where
  "loadPersistedOrders s =
     (if \<not> window_defined (storage s) then Some s
      else if getItem_throws (storage s) then Some (s\<lparr> orders := [] \<rparr>)
      else
        (case jupiter_orders (storage s) of
           None \<Rightarrow> Some s
         | Some EmptyText \<Rightarrow> Some s
         | Some stored \<Rightarrow>
             (case JSON_parse stored of
                Inl e \<Rightarrow> Some (s\<lparr> orders := [] \<rparr>)
              | Inr d \<Rightarrow>
                  (case Map_entries d of
                     None \<Rightarrow> Some (s\<lparr> orders := [] \<rparr>)
                   | Some es \<Rightarrow>
                       (case read_list string_key es of
                          None \<Rightarrow> Some (s\<lparr> orders := [] \<rparr>)
                        | Some entries \<Rightarrow>
                            (case read_list read_value (new_Map entries) of
                               None \<Rightarrow> None
                             | Some m \<Rightarrow>
                                 Some (s\<lparr> orders := m,
                                          orderIdCounter :=
                                            nat (Math_max0 (map (id_number \<circ> fst) m)) \<rparr>)))))))"

text \<open>The constructor; an argument left out takes its default from \<open>CONFIG\<close>.\<close>

definition new_OrderManager ::
  "CONFIG \<Rightarrow> localStorage \<Rightarrow> number option \<Rightarrow> string option \<Rightarrow> OrderManager option" where
  "new_OrderManager cfg ls feeBps treasury =
     loadPersistedOrders
       \<lparr> orders = [],
         protocolFeeBps = (case feeBps of None \<Rightarrow> PROTOCOL_FEE_BPS cfg | Some b \<Rightarrow> b),
         OrderManager.treasuryWallet =
           (case treasury of None \<Rightarrow> TREASURY_WALLET cfg | Some t \<Rightarrow> t),
         orderIdCounter = 0,
         storage = ls \<rparr>"

text \<open>
  \<open>this.orderIdCounter++\<close>: the sum is rounded as every sum of numbers is. Below
  \<open>2^53\<close> it is the next natural number; at \<open>2^53\<close> the sum rounds back to \<open>2^53\<close>.
\<close>

definition increment :: "nat \<Rightarrow> nat" where
  "increment c = (case fl (of_nat c + 1) of Num r \<Rightarrow> nat \<lfloor>r\<rfloor> | other \<Rightarrow> c)"

text \<open>\<open>generateOrderId\<close>, at the clock reading \<open>now\<close>.\<close>

definition generateOrderId :: "nat \<Rightarrow> OrderManager \<Rightarrow> string \<times> OrderManager" where
  "generateOrderId now s =
     (''order_'' @ toString_nat now @ ''_''
        @ padStart 4 CHR ''0'' (toString_nat (increment (orderIdCounter s))),
      s\<lparr> orderIdCounter := increment (orderIdCounter s) \<rparr>)"

definition validateOrderParams :: "world \<Rightarrow> OrderCreationParams \<Rightarrow> error + unit" where
  "validateOrderParams w params =
     (if \<not> truthy_str (OrderCreationParams.inputToken params)
         \<or> \<not> truthy_str (OrderCreationParams.outputToken params)
      then Inl (Error ''Input and output tokens are required'')
      else if OrderCreationParams.inputToken params = OrderCreationParams.outputToken params
      then Inl (Error ''Input and output tokens cannot be the same'')
      else if \<not> truthy_num (OrderCreationParams.inputAmount params)
              \<or> num_le (OrderCreationParams.inputAmount params) (Num 0)
      then Inl (Error ''Input amount must be greater than 0'')
      else if \<not> truthy_str (OrderCreationParams.liquidityProvider params)
      then Inl (Error ''Liquidity provider address is required'')
      else if \<not> PublicKey_valid w (OrderCreationParams.liquidityProvider params)
      then Inl (Error ''Invalid liquidity provider address'')
      else
        (case OrderCreationParams.refundAddress params of
           None \<Rightarrow> Inr ()
         | Some a \<Rightarrow>
             if truthy_str a \<and> \<not> PublicKey_valid w a
             then Inl (Error ''Invalid refund address'')
             else Inr ()))"

text \<open>
  \<open>createOrder\<close>. The clock is read twice, for the id and for the timestamp. Every
  statement that can throw stands before the first change of the state, so the
  \<open>catch\<close> block finds the state as it was.
\<close>

definition createOrder ::
  "world \<Rightarrow> nat \<Rightarrow> nat \<Rightarrow> OrderCreationParams \<Rightarrow> string \<Rightarrow> OrderManager
     \<Rightarrow> (error + string) \<times> OrderManager" where
  "createOrder w now_id now_ts params userKey s =
     (case
        seq (validateOrderParams w params)
          (\<lambda>_. seq (if \<not> truthy_str (OrderManager.treasuryWallet s)
                    then Inl (Error ''Treasury wallet not configured'') else Inr ())
          (\<lambda>_. getQuote w (OrderCreationParams.inputToken params)
                  (OrderCreationParams.outputToken params)
                  (OrderCreationParams.inputAmount params)
                  (Num 50) (Some (protocolFeeBps s))))
      of
        Inl e \<Rightarrow>
          (seq (get_message e) (\<lambda>m. Inl (Error (''Failed to create order: '' @ template m))), s)
      | Inr q \<Rightarrow>
          (case generateOrderId now_id s of
             (orderId, s1) \<Rightarrow>
               (Inr orderId,
                persistOrders (s1\<lparr> orders := AList.update orderId
                  \<lparr> id' = orderId,
                    Order.inputToken = OrderCreationParams.inputToken params,
                    Order.outputToken = OrderCreationParams.outputToken params,
                    Order.inputAmount = OrderCreationParams.inputAmount params,
                    expectedOutputAmount = parseInt (JupiterQuote.outAmount q),
                    actualOutputAmount = None,
                    Order.rate = opt_str_or (OrderCreationParams.rate params) ''Market Rate'',
                    creator = userKey,
                    Order.refundAddress =
                      opt_str_or (OrderCreationParams.refundAddress params) userKey,
                    Order.liquidityProvider = OrderCreationParams.liquidityProvider params,
                    status = PENDING,
                    timestamp = Num (of_nat now_ts),
                    quote = q,
                    transactionSignature = None,
                    errorMessage = None,
                    protocolFee =
                      num_divide
                        (num_times (OrderCreationParams.inputAmount params) (protocolFeeBps s))
                        10000,
                    priceImpact = priceImpactPct q \<rparr>
                  (orders s1) \<rparr>))))"

text \<open>
  The \<open>catch\<close> block of \<open>executeOrder\<close>: the order is marked failed, its \<open>errorMessage\<close>
  is set to \<open>error.message\<close>, it is stored and persisted, and the error is thrown
  again. When the message cannot be read, the \<open>TypeError\<close> leaves the block after the
  status was set.
\<close>

definition executeOrder_catch ::
  "string \<Rightarrow> Order \<Rightarrow> error \<Rightarrow> OrderManager \<Rightarrow> (error + unit) \<times> OrderManager" where
  "executeOrder_catch orderId order e s =
     (case get_message e of
        Inl typeError \<Rightarrow>
          (Inl typeError,
           s\<lparr> orders := AList.update orderId (order\<lparr> status := FAILED \<rparr>) (orders s) \<rparr>)
      | Inr m \<Rightarrow>
          (Inl e,
           persistOrders (s\<lparr> orders := AList.update orderId
             (order\<lparr> status := FAILED, errorMessage := m \<rparr>) (orders s) \<rparr>)))"

text \<open>
  \<open>executeOrder\<close> looks up the order, tests its status, and calls
  \<open>executeOrderSwap\<close> with values read from the order and the manager at that moment.
  It is suspended at \<open>await\<close> until the swap has an outcome, a result or a thrown value.
  \<open>executeOrder_continue\<close> is what it does then, with the outcome, to the order as it is
  at that time; the status is not tested again.
\<close>

definition executeOrder_continue ::
  "string \<Rightarrow> Order \<Rightarrow> error + TransactionResult \<Rightarrow> OrderManager
     \<Rightarrow> (error + unit) \<times> OrderManager" where
  "executeOrder_continue orderId order outcome s =
     (case outcome of
        Inl e \<Rightarrow> executeOrder_catch orderId order e s
      | Inr result \<Rightarrow>
          if success result
          then
            (Inr (),
             persistOrders (s\<lparr> orders := AList.update orderId
               (order\<lparr> transactionSignature := Some (signature result),
                       actualOutputAmount := Some
                         (case outputAmount result of
                            None \<Rightarrow> expectedOutputAmount order
                          | Some a \<Rightarrow>
                              if truthy_str a then parseInt a
                              else expectedOutputAmount order),
                       status := FULFILLED \<rparr>)
               (orders s) \<rparr>))
          else
            executeOrder_catch orderId
              (order\<lparr> status := FAILED,
                      errorMessage :=
                        Some (opt_str_or (error result) ''Unknown execution error'') \<rparr>)
              (Error (opt_str_or (error result) ''Swap execution failed''))
              s)"

text \<open>
  \<open>executeOrder\<close> when nothing else runs while the swap is awaited.
\<close>

definition executeOrder ::
  "world \<Rightarrow> wallet \<Rightarrow> string \<Rightarrow> OrderManager \<Rightarrow> (error + unit) \<times> OrderManager" where
  "executeOrder w wl orderId s =
     (case map_of (orders s) orderId of
        None \<Rightarrow> (Inl (Error ''Order not found''), s)
      | Some order \<Rightarrow>
          if status order \<noteq> PENDING
          then (Inl (Error (''Order is not in pending status. Current status: ''
                             @ status_string (status order))), s)
          else
            executeOrder_continue orderId order
              (executeOrderSwap w wl
                 \<lparr> order_swap.inputMint = Order.inputToken order,
                   order_swap.outputMint = Order.outputToken order,
                   order_swap.inputAmount = Order.inputAmount order,
                   order_swap.liquidityProvider = Order.liquidityProvider order,
                   order_swap.treasuryWallet = OrderManager.treasuryWallet s,
                   platformFeeBps = protocolFeeBps s \<rparr>)
              s)"

text \<open>
  The same call in two steps, for the case that other calls run while the swap is
  awaited. \<open>executeOrder_begin\<close> is the part up to the \<open>await\<close>: it throws, or it
  leaves the call suspended with the outcome that the swap will have.
  \<open>executeOrder_resume\<close> is the part after the \<open>await\<close>, on the state of the manager at
  that time. It acts on the object that was looked up at the beginning, which is the
  object the collection holds under the id as long as no order is removed or
  replaced; the result is \<open>None\<close> when the collection holds no order under the id.
\<close>

definition executeOrder_begin ::
  "world \<Rightarrow> wallet \<Rightarrow> string \<Rightarrow> OrderManager \<Rightarrow> error + (error + TransactionResult)" where
  "executeOrder_begin w wl orderId s =
     (case map_of (orders s) orderId of
        None \<Rightarrow> Inl (Error ''Order not found'')
      | Some order \<Rightarrow>
          if status order \<noteq> PENDING
          then Inl (Error (''Order is not in pending status. Current status: ''
                            @ status_string (status order)))
          else
            Inr (executeOrderSwap w wl
                   \<lparr> order_swap.inputMint = Order.inputToken order,
                     order_swap.outputMint = Order.outputToken order,
                     order_swap.inputAmount = Order.inputAmount order,
                     order_swap.liquidityProvider = Order.liquidityProvider order,
                     order_swap.treasuryWallet = OrderManager.treasuryWallet s,
                     platformFeeBps = protocolFeeBps s \<rparr>))"

definition executeOrder_resume ::
  "string \<Rightarrow> error + TransactionResult \<Rightarrow> OrderManager
     \<Rightarrow> ((error + unit) \<times> OrderManager) option" where
  "executeOrder_resume orderId outcome s =
     (case map_of (orders s) orderId of
        None \<Rightarrow> None
      | Some order \<Rightarrow> Some (executeOrder_continue orderId order outcome s))"

definition cancelOrder ::
  "string \<Rightarrow> string \<Rightarrow> OrderManager \<Rightarrow> (error + unit) \<times> OrderManager" where
  "cancelOrder orderId userKey s =
     (case map_of (orders s) orderId of
        None \<Rightarrow> (Inl (Error ''Order not found''), s)
      | Some order \<Rightarrow>
          if creator order \<noteq> userKey
          then (Inl (Error ''Unauthorized: Only order creator can cancel''), s)
          else if status order \<noteq> PENDING
          then (Inl (Error (''Cannot cancel order with status: ''
                             @ status_string (status order))), s)
          else
            (Inr (),
             persistOrders (s\<lparr> orders := AList.update orderId
               (order\<lparr> status := CANCELLED \<rparr>) (orders s) \<rparr>)))"

definition getOrder :: "string \<Rightarrow> OrderManager \<Rightarrow> Order option" where
  "getOrder orderId s = map_of (orders s) orderId"

text \<open>
  \<open>updateOrderQuote\<close> is suspended in the same way while the quote is awaited;
  \<open>updateOrderQuote_continue\<close> is what it does with the outcome.
\<close>

definition updateOrderQuote_continue ::
  "string \<Rightarrow> Order \<Rightarrow> error + JupiterQuote \<Rightarrow> OrderManager
     \<Rightarrow> (error + unit) \<times> OrderManager" where
  "updateOrderQuote_continue orderId order outcome s =
     (case outcome of
        Inl e \<Rightarrow> (Inl e, s)
      | Inr newQuote \<Rightarrow>
          (Inr (),
           persistOrders (s\<lparr> orders := AList.update orderId
             (order\<lparr> quote := newQuote,
                     expectedOutputAmount := parseInt (JupiterQuote.outAmount newQuote),
                     priceImpact := priceImpactPct newQuote \<rparr>)
             (orders s) \<rparr>)))"

definition updateOrderQuote ::
  "world \<Rightarrow> string \<Rightarrow> OrderManager \<Rightarrow> (error + unit) \<times> OrderManager" where
  "updateOrderQuote w orderId s =
     (case map_of (orders s) orderId of
        None \<Rightarrow> (Inl (Error ''Cannot update quote for non-pending order''), s)
      | Some order \<Rightarrow>
          if status order \<noteq> PENDING
          then (Inl (Error ''Cannot update quote for non-pending order''), s)
          else
            updateOrderQuote_continue orderId order
              (getQuote w (Order.inputToken order) (Order.outputToken order)
                 (Order.inputAmount order) (Num 50) (Some (protocolFeeBps s)))
              s)"

definition updateOrderQuote_begin ::
  "world \<Rightarrow> string \<Rightarrow> OrderManager \<Rightarrow> error + (error + JupiterQuote)" where
  "updateOrderQuote_begin w orderId s =
     (case map_of (orders s) orderId of
        None \<Rightarrow> Inl (Error ''Cannot update quote for non-pending order'')
      | Some order \<Rightarrow>
          if status order \<noteq> PENDING
          then Inl (Error ''Cannot update quote for non-pending order'')
          else
            Inr (getQuote w (Order.inputToken order) (Order.outputToken order)
                   (Order.inputAmount order) (Num 50) (Some (protocolFeeBps s))))"

definition updateOrderQuote_resume ::
  "string \<Rightarrow> error + JupiterQuote \<Rightarrow> OrderManager
     \<Rightarrow> ((error + unit) \<times> OrderManager) option" where
  "updateOrderQuote_resume orderId outcome s =
     (case map_of (orders s) orderId of
        None \<Rightarrow> None
      | Some order \<Rightarrow> Some (updateOrderQuote_continue orderId order outcome s))"

definition QUOTE_EXPIRY_TIME :: rat where
  "QUOTE_EXPIRY_TIME = 5 * 60 * 1000"

text \<open>\<open>getOrdersRequiringAttention\<close>, at the clock reading \<open>now\<close>.\<close>

definition requires_attention :: "nat \<Rightarrow> Order \<Rightarrow> bool" where
  "requires_attention now order =
     (if status order = FAILED then True
      else if status order = PENDING
              \<and> num_gt (num_minus (Num (of_nat now)) (timestamp order)) (Num QUOTE_EXPIRY_TIME)
      then True
      else False)"

definition getOrdersRequiringAttention :: "nat \<Rightarrow> OrderManager \<Rightarrow> Order list" where
  "getOrdersRequiringAttention now s = filter (requires_attention now) (map snd (orders s))"

definition exportOrders :: "OrderManager \<Rightarrow> json_text" where
  "exportOrders s = Text (entries_json (orders s))"

text \<open>
  \<open>importOrders\<close>. When the text is not JSON or \<open>new Map\<close> rejects the document, the
  error is thrown and the state is as it was. The document \<open>null\<close> gives the empty
  collection, which is stored and persisted before \<open>ordersArray.length\<close> throws. The
  counter is not touched. The result is \<open>None\<close> when a key is not a string or a value
  is not an order: such a collection is outside the model.
\<close>

definition importOrders ::
  "json_text \<Rightarrow> OrderManager \<Rightarrow> ((error + unit) \<times> OrderManager) option" where
  "importOrders ordersJson s =
     (case JSON_parse ordersJson of
        Inl e \<Rightarrow> Some (Inl (Error ''Invalid orders data format''), s)
      | Inr d \<Rightarrow>
          (case Map_entries d of
             None \<Rightarrow> Some (Inl (Error ''Invalid orders data format''), s)
           | Some es \<Rightarrow>
               (case read_list string_key es of
                  None \<Rightarrow> None
                | Some entries \<Rightarrow>
                    (case read_list read_value (new_Map entries) of
                       None \<Rightarrow> None
                     | Some m \<Rightarrow>
                         Some (if d = JNull then Inl (Error ''Invalid orders data format'')
                               else Inr (),
                               persistOrders (s\<lparr> orders := m \<rparr>))))))"


text \<open>
  The three operations that act on an existing order, each with the world it runs
  in, and a sequence of them run one after the other on the manager.
\<close>

datatype operation =
    ExecuteOrder world wallet string
  | CancelOrder string string
  | UpdateOrderQuote world string

fun perform :: "operation \<Rightarrow> OrderManager \<Rightarrow> (error + unit) \<times> OrderManager" where
  "perform (ExecuteOrder w wl orderId) s = executeOrder w wl orderId s"
| "perform (CancelOrder orderId userKey) s = cancelOrder orderId userKey s"
| "perform (UpdateOrderQuote w orderId) s = updateOrderQuote w orderId s"

fun run :: "operation list \<Rightarrow> OrderManager \<Rightarrow> OrderManager" where
  "run [] s = s"
| "run (x # xs) s = run xs (snd (perform x s))"

text \<open>
  The orders in which every number is a number proper, that is finite: these are the
  orders that \<open>JSON.stringify\<close> writes without loss.
\<close>

definition numbers_proper :: "Order \<Rightarrow> bool" where
  "numbers_proper order =
     (isFinite (Order.inputAmount order)
      \<and> isFinite (expectedOutputAmount order)
      \<and> (case actualOutputAmount order of None \<Rightarrow> True | Some n \<Rightarrow> isFinite n)
      \<and> isFinite (timestamp order)
      \<and> isFinite (protocolFee order))"

text \<open>\<open>object[key]\<close> on a document.\<close>

fun property :: "json \<Rightarrow> string \<Rightarrow> json option" where
  "property (JObj ps) k = map_of ps k"
| "property _ k = None"





section \<open>Example values\<close>

text \<open>A quote, a wallet, a world in which every call succeeds, and a manager.\<close>

definition quote0 :: JupiterQuote where
  "quote0 =
     \<lparr> JupiterQuote.inputMint = ''So11111111111111111111111111111111111111112'',
       JupiterQuote.inAmount = ''1000000'',
       JupiterQuote.outputMint = ''EPjFWdd5AufqSSqeM2qN1xzybapC8G4wEGGkZwyTDt1v'',
       JupiterQuote.outAmount = ''2500000'',
       otherAmountThreshold = ''2487500'',
       swapMode = ''ExactIn'',
       JupiterQuote.slippageBps = 50,
       platformFee = JNull,
       priceImpactPct = ''0.01'',
       routePlan =
         [\<lparr> swapInfo =
              \<lparr> ammKey = ''amm1'', label = ''Pool'',
                SwapInfo.inputMint = ''So11111111111111111111111111111111111111112'',
                SwapInfo.outputMint = ''EPjFWdd5AufqSSqeM2qN1xzybapC8G4wEGGkZwyTDt1v'',
                SwapInfo.inAmount = ''1000000'', SwapInfo.outAmount = ''2500000'',
                feeAmount = ''100'', feeMint = ''So11111111111111111111111111111111111111112'' \<rparr>,
            percent = 100 \<rparr>],
       contextSlot = 250000000,
       timeTaken = 1 / 100 \<rparr>"

definition config0 :: CONFIG where
  "config0 =
     \<lparr> DEFAULT_SLIPPAGE = Num 50, PRIORITY_LEVEL = ''veryHigh'', MAX_RETRIES = Num 3,
       PROTOCOL_FEE_BPS = Num 100, TREASURY_WALLET = ''Treasury'' \<rparr>"

definition world0 :: world where
  "world0 =
     \<lparr> config = config0,
       fetch_quote = (\<lambda>r. HttpOk (Inr quote0)),
       fetch_swap = (\<lambda>r. HttpOk (Inr \<lparr> swapTransaction = ''AQAB'',
                                        lastValidBlockHeight = Num 250000150 \<rparr>)),
       PublicKey_valid = (\<lambda>k. k \<noteq> []),
       getAssociatedTokenAddress = (\<lambda>mint owner. Inr (owner @ ''/'' @ mint)),
       deserialize = (\<lambda>b. Inr \<lparr> recentBlockhash = ''blockhash'', payload = b \<rparr>),
       sendTransaction = (\<lambda>tx retries. Inr ''signature1''),
       confirmTransaction = (\<lambda>sig blockhash height. Inr None) \<rparr>"

definition wallet0 :: wallet where
  "wallet0 = \<lparr> publicKey = Some ''Alice'', signTransaction = (\<lambda>tx. Inr tx) \<rparr>"

definition storage0 :: localStorage where
  "storage0 =
     \<lparr> window_defined = True, getItem_throws = False, setItem_throws = False,
       jupiter_orders = None \<rparr>"

definition manager0 :: OrderManager where
  "manager0 =
     \<lparr> orders = [], protocolFeeBps = Num 100, OrderManager.treasuryWallet = ''Treasury'',
       orderIdCounter = 0, storage = storage0 \<rparr>"

definition params0 :: "rat \<Rightarrow> OrderCreationParams" where
  "params0 a =
     \<lparr> OrderCreationParams.inputToken = ''So11111111111111111111111111111111111111112'',
       OrderCreationParams.outputToken = ''EPjFWdd5AufqSSqeM2qN1xzybapC8G4wEGGkZwyTDt1v'',
       OrderCreationParams.inputAmount = Num a,
       OrderCreationParams.rate = None,
       OrderCreationParams.liquidityProvider = ''Bob'',
       OrderCreationParams.refundAddress = None \<rparr>"

definition swapTx0 :: SwapTransaction where
  "swapTx0 = \<lparr> swapTransaction = ''AQAB'', lastValidBlockHeight = Num 250000150 \<rparr>"

text \<open>Worlds in which one stage fails: the wallet refuses, or the transaction fails on chain.\<close>

definition wallet_refuses :: wallet where
  "wallet_refuses =
     \<lparr> publicKey = Some ''Alice'',
       signTransaction = (\<lambda>tx. Inl (Error ''User rejected the request'')) \<rparr>"

text \<open>A wallet whose \<open>signTransaction\<close> rejects with no value, that is with \<open>undefined\<close>.\<close>

definition wallet_rejects_undefined :: wallet where
  "wallet_rejects_undefined =
     \<lparr> publicKey = Some ''Alice'', signTransaction = (\<lambda>tx. Inl ThrownUndefined) \<rparr>"

definition world_onchain_error :: world where
  "world_onchain_error =
     world0\<lparr> confirmTransaction := (\<lambda>sig blockhash height. Inr (Some ''custom program error'')) \<rparr>"

definition world_no_quote :: world where
  "world_no_quote = world0\<lparr> fetch_quote := (\<lambda>r. HttpError 429 (Inr (Some ''Rate limited''))) \<rparr>"

definition order_swap0 :: order_swap where
  "order_swap0 =
     \<lparr> order_swap.inputMint = ''So11111111111111111111111111111111111111112'',
       order_swap.outputMint = ''EPjFWdd5AufqSSqeM2qN1xzybapC8G4wEGGkZwyTDt1v'',
       order_swap.inputAmount = Num 1000000,
       order_swap.liquidityProvider = ''Bob'',
       order_swap.treasuryWallet = ''Treasury'',
       platformFeeBps = Num 100 \<rparr>"

text \<open>A pending order of Alice, and a manager that holds it.\<close>

definition order0 :: Order where
  "order0 =
     \<lparr> id' = ''order_1700000000000_0001'',
       Order.inputToken = ''So11111111111111111111111111111111111111112'',
       Order.outputToken = ''EPjFWdd5AufqSSqeM2qN1xzybapC8G4wEGGkZwyTDt1v'',
       Order.inputAmount = Num 1000000,
       expectedOutputAmount = Num 2400000,
       actualOutputAmount = None,
       Order.rate = ''Market Rate'',
       creator = ''Alice'',
       Order.refundAddress = ''Alice'',
       Order.liquidityProvider = ''Bob'',
       status = PENDING,
       timestamp = Num 1700000000001,
       quote = quote0\<lparr> JupiterQuote.outAmount := ''2400000'', priceImpactPct := ''0.02'' \<rparr>,
       transactionSignature = None,
       errorMessage = None,
       protocolFee = Num 10000,
       priceImpact = ''0.02'' \<rparr>"

definition manager1 :: OrderManager where
  "manager1 = manager0\<lparr> orders := [(''order_1700000000000_0001'', order0)], orderIdCounter := 1 \<rparr>"

definition manager_fulfilled :: OrderManager where
  "manager_fulfilled =
     manager1\<lparr> orders := [(''order_1700000000000_0001'',
       order0\<lparr> status := FULFILLED, transactionSignature := Some ''signature1'',
               actualOutputAmount := Some (Num 2500000) \<rparr>)] \<rparr>"

text \<open>
  A quote service that reports an amount that is not a number, and the order and the
  manager that \<open>createOrder\<close> makes of it.
\<close>

definition world_nan_quote :: world where
  "world_nan_quote =
     world0\<lparr> fetch_quote := (\<lambda>r. HttpOk (Inr (quote0\<lparr> JupiterQuote.outAmount := ''n/a'' \<rparr>))) \<rparr>"

definition order_nan :: Order where
  "order_nan =
     \<lparr> id' = ''order_1700000000000_0001'',
       Order.inputToken = ''So11111111111111111111111111111111111111112'',
       Order.outputToken = ''EPjFWdd5AufqSSqeM2qN1xzybapC8G4wEGGkZwyTDt1v'',
       Order.inputAmount = Num 1000000,
       expectedOutputAmount = NaN,
       actualOutputAmount = None,
       Order.rate = ''Market Rate'',
       creator = ''Alice'',
       Order.refundAddress = ''Alice'',
       Order.liquidityProvider = ''Bob'',
       status = PENDING,
       timestamp = Num 1700000000001,
       quote = quote0\<lparr> JupiterQuote.outAmount := ''n/a'' \<rparr>,
       transactionSignature = None,
       errorMessage = None,
       protocolFee = Num 10000,
       priceImpact = ''0.01'' \<rparr>"

definition manager_nan :: OrderManager where
  "manager_nan =
     snd (createOrder world_nan_quote 1700000000000 1700000000001 (params0 1000000)
            ''Alice'' manager0)"

text \<open>
  A storage that holds what was persisted of the manager with Alice's order, and the
  manager that is constructed from it.
\<close>

definition storage1 :: localStorage where
  "storage1 = storage0\<lparr> jupiter_orders := Some (exportOrders manager1) \<rparr>"

definition manager_restarted :: OrderManager where
  "manager_restarted =
     \<lparr> orders = [(''order_1700000000000_0001'', order0)], protocolFeeBps = Num 100,
       OrderManager.treasuryWallet = ''Treasury'', orderIdCounter = 1, storage = storage1 \<rparr>"

text \<open>A second pending order, of Carol, and a manager that holds both.\<close>

definition order1 :: Order where
  "order1 =
     order0\<lparr> id' := ''order_1700000000300_0002'', creator := ''Carol'',
             Order.refundAddress := ''Carol'', timestamp := Num 1700000000301 \<rparr>"

definition manager2 :: OrderManager where
  "manager2 =
     manager0\<lparr> orders := [(''order_1700000000000_0001'', order0),
                          (''order_1700000000300_0002'', order1)],
               orderIdCounter := 2 \<rparr>"


text \<open>A collection to import: one order, under an id with the number 2.\<close>

definition order_imported :: Order where
  "order_imported = order0\<lparr> id' := ''order_1700000000900_0002'' \<rparr>"

definition manager_imported :: OrderManager where
  "manager_imported =
     persistOrders
       (manager_restarted\<lparr> orders := [(''order_1700000000900_0002'', order_imported)] \<rparr>)"

text \<open>A storage that holds an order under an id with the number \<open>2^53\<close>.\<close>

definition order_limit :: Order where
  "order_limit = order0\<lparr> id' := ''order_1700000000900_9007199254740992'' \<rparr>"

definition storage_limit :: localStorage where
  "storage_limit =
     storage0\<lparr> jupiter_orders :=
       Some (Text (entries_json [(''order_1700000000900_9007199254740992'', order_limit)])) \<rparr>"

definition manager_limit :: OrderManager where
  "manager_limit =
     \<lparr> orders = [(''order_1700000000900_9007199254740992'', order_limit)],
       protocolFeeBps = Num 100, OrderManager.treasuryWallet = ''Treasury'',
       orderIdCounter = 9007199254740992, storage = storage_limit \<rparr>"
section \<open>Rounding to a double\<close>

text \<open>
  \<open>ilog2\<close> is the binary exponent, so \<open>fl\<close> rounds to 53 binary digits: a number that
  has 53 binary digits or fewer, and an exponent in the range of the doubles, is its
  own rounding. Every integer up to \<open>2^53\<close> is such a number.
\<close>

lemma bitlen_powi:
  assumes "0 < p"
  shows "2 powi (bitlen p - 1) \<le> (of_int p :: rat) \<and> (of_int p :: rat) < 2 powi (bitlen p)"
proof -
  from bitlen_bounds [OF assms] have a: "2 ^ nat (bitlen p - 1) \<le> p" and b: "p < 2 ^ nat (bitlen p)"
    by simp_all
  from assms have pos: "1 \<le> bitlen p" by (auto simp: bitlen_alt_def)
  from a have "(of_int (2 ^ nat (bitlen p - 1)) :: rat) \<le> of_int p" by (simp only: of_int_le_iff)
  moreover from b have "(of_int p :: rat) < of_int (2 ^ nat (bitlen p))" by (simp only: of_int_less_iff)
  ultimately show ?thesis using pos by (simp add: power_int_def)
qed

lemma ilog2_bounds:
  assumes "x \<noteq> 0"
  shows "2 powi (ilog2 x) \<le> \<bar>x\<bar> \<and> \<bar>x\<bar> < 2 powi (ilog2 x + 1)"
proof -
  obtain p q where pq: "quotient_of \<bar>x\<bar> = (p, q)" by (cases "quotient_of \<bar>x\<bar>")
  then have q: "0 < q" and x: "\<bar>x\<bar> = of_int p / of_int q"
    by (simp_all add: quotient_of_denom_pos quotient_of_div)
  from assms have "0 < \<bar>x\<bar>" by simp
  with x have "(0::rat) < of_int p / of_int q" by simp
  with q have p: "0 < p" by (simp add: zero_less_divide_iff)
  let ?k = "bitlen p - bitlen q"
  from bitlen_powi [OF p] have p1: "2 powi (bitlen p - 1) \<le> (of_int p :: rat)"
    and p2: "(of_int p :: rat) < 2 powi (bitlen p)" by simp_all
  from bitlen_powi [OF q] have q1: "2 powi (bitlen q - 1) \<le> (of_int q :: rat)"
    and q2: "(of_int q :: rat) < 2 powi (bitlen q)" by simp_all
  have qpos: "(0::rat) < of_int q" using q by simp
  have up: "\<bar>x\<bar> < 2 powi (?k + 1)"
  proof -
    have "(of_int p :: rat) < 2 powi (bitlen p)" by (rule p2)
    also have "\<dots> = 2 powi (?k + 1) * 2 powi (bitlen q - 1)"
      by (simp add: power_int_add [symmetric])
    also have "\<dots> \<le> 2 powi (?k + 1) * of_int q"
      using q1 by (intro mult_left_mono) simp_all
    finally show ?thesis using qpos by (simp add: x pos_divide_less_eq)
  qed
  have low: "2 powi (?k - 1) < \<bar>x\<bar>"
  proof -
    have "2 powi (?k - 1) * (of_int q :: rat) < 2 powi (?k - 1) * 2 powi (bitlen q)"
      using q2 by (intro mult_strict_left_mono) simp_all
    also have "\<dots> = 2 powi (bitlen p - 1)"
      by (simp add: power_int_add [symmetric])
    also have "\<dots> \<le> of_int p" by (rule p1)
    finally show ?thesis using qpos by (simp add: x pos_less_divide_eq)
  qed
  show ?thesis
  proof (cases "2 powi ?k \<le> \<bar>x\<bar>")
    case True
    with up pq show ?thesis by (simp add: ilog2_def)
  next
    case False
    with low pq show ?thesis by (simp add: ilog2_def)
  qed
qed


lemma powi2_less_imp:
  assumes "(2::rat) powi a < 2 powi b"
  shows "a < b"
proof (rule ccontr)
  assume "\<not> a < b"
  then have "b \<le> a" by simp
  then have "(2::rat) powi b \<le> 2 powi a" by (intro power_int_increasing) simp_all
  with assms show False by simp
qed

lemma ilog2_unique:
  assumes "x \<noteq> 0" and "2 powi j \<le> \<bar>x\<bar>" and "\<bar>x\<bar> < 2 powi (j + 1)"
  shows "ilog2 x = j"
proof -
  from ilog2_bounds [OF assms(1)]
  have a: "2 powi (ilog2 x) \<le> \<bar>x\<bar>" and b: "\<bar>x\<bar> < 2 powi (ilog2 x + 1)" by simp_all
  from a assms(3) have "(2::rat) powi (ilog2 x) < 2 powi (j + 1)" by (rule le_less_trans)
  then have "ilog2 x < j + 1" by (rule powi2_less_imp)
  moreover from assms(2) b have "(2::rat) powi j < 2 powi (ilog2 x + 1)" by (rule le_less_trans)
  then have "j < ilog2 x + 1" by (rule powi2_less_imp)
  ultimately show ?thesis by simp
qed

lemma round_half_even_of_int: "round_half_even (of_int m) = m"
  by (simp add: round_half_even_def)

lemma round_half_even_near:
  assumes "of_int m - 1 / 2 < x" and "x < of_int m + 1 / 2"
  shows "round_half_even x = m"
proof (cases "of_int m \<le> x")
  case True
  with assms have "\<lfloor>x\<rfloor> = m" by (simp add: floor_eq_iff)
  with assms show ?thesis by (simp add: round_half_even_def)
next
  case False
  with assms have f: "\<lfloor>x\<rfloor> = m - 1" by (simp add: floor_eq_iff)
  from assms False have "1 / 2 < x - of_int (m - 1)" by simp
  with f show ?thesis by (simp add: round_half_even_def)
qed

lemma fl_exact:
  assumes "x \<noteq> 0"
    and "\<bar>x\<bar> / 2 powi (max (ilog2 x - 52) (- 1074)) = of_int m"
    and "\<bar>x\<bar> < 2 ^ 1024"
  shows "fl x = Num x"
proof -
  let ?e = "max (ilog2 x - 52) (- 1074)"
  have "(2::rat) powi ?e \<noteq> 0" by simp
  with assms(2) have "of_int m * 2 powi ?e = \<bar>x\<bar>"
    by (simp add: field_simps)
  moreover have "sgn x * \<bar>x\<bar> = x" by (simp add: sgn_if)
  ultimately show ?thesis
    using assms by (simp add: fl_def Let_def round_half_even_of_int)
qed


lemma fl_dyadic:
  assumes m: "\<bar>m\<bar> < 2 ^ 53" and lo: "- 1074 \<le> j" and hi: "j \<le> 971"
  shows "fl (of_int m * 2 powi j) = Num (of_int m * 2 powi j)"
proof (cases "m = 0")
  case True
  then show ?thesis by (simp add: fl_def)
next
  case False
  let ?x = "of_int m * 2 powi j :: rat"
  let ?e = "max (ilog2 ?x - 52) (- 1074)"
  from False have nz: "?x \<noteq> 0" by simp
  have ax: "\<bar>?x\<bar> = of_int \<bar>m\<bar> * 2 powi j"
    by (simp add: abs_mult)
  from m have "(of_int \<bar>m\<bar> :: rat) < of_int (2 ^ 53)" by (simp only: of_int_less_iff)
  then have m': "(of_int \<bar>m\<bar> :: rat) < 2 powi 53" by simp
  then have "\<bar>?x\<bar> < 2 powi 53 * 2 powi j"
    unfolding ax by (intro mult_strict_right_mono) simp_all
  then have up: "\<bar>?x\<bar> < 2 powi (53 + j)" by (simp add: power_int_add)
  from ilog2_bounds [OF nz] have "2 powi (ilog2 ?x) \<le> \<bar>?x\<bar>" by simp
  from this up have "(2::rat) powi (ilog2 ?x) < 2 powi (53 + j)" by (rule le_less_trans)
  then have "ilog2 ?x < 53 + j" by (rule powi2_less_imp)
  with lo have e: "?e \<le> j" by simp
  have "\<bar>?x\<bar> / 2 powi ?e = of_int \<bar>m\<bar> * 2 powi (j - ?e)"
    unfolding ax by (simp add: power_int_diff)
  also from e have "\<dots> = of_int \<bar>m\<bar> * 2 ^ nat (j - ?e)"
    by (simp add: power_int_def)
  also have "\<dots> = of_int (\<bar>m\<bar> * 2 ^ nat (j - ?e))" by simp
  finally have q: "\<bar>?x\<bar> / 2 powi ?e = of_int (\<bar>m\<bar> * 2 ^ nat (j - ?e))" .
  from hi have "(2::rat) powi (53 + j) \<le> 2 powi 1024"
    by (intro power_int_increasing) simp_all
  with up have "\<bar>?x\<bar> < 2 powi 1024" by simp
  then have "\<bar>?x\<bar> < 2 ^ 1024" by simp
  from fl_exact [OF nz q this] show ?thesis .
qed

lemma fl_of_int:
  assumes "\<bar>m\<bar> \<le> 2 ^ 53"
  shows "fl (of_int m) = Num (of_int m)"
proof (cases "\<bar>m\<bar> < 2 ^ 53")
  case True
  from fl_dyadic [OF True, of 0] show ?thesis by simp
next
  case False
  with assms have "\<bar>m\<bar> = 2 ^ 53" by simp
  then have "m = 2 ^ 52 * 2 \<or> m = - (2 ^ 52) * 2" by auto
  then show ?thesis
  proof
    assume "m = 2 ^ 52 * 2"
    with fl_dyadic [of "2 ^ 52" 1] show ?thesis by simp
  next
    assume "m = - (2 ^ 52) * 2"
    with fl_dyadic [of "- (2 ^ 52)" 1] show ?thesis by simp
  qed
qed

lemma fl_normal:
  assumes nz: "x \<noteq> 0"
    and lo: "2 powi j \<le> \<bar>x\<bar>" and hi: "\<bar>x\<bar> < 2 powi (j + 1)"
    and normal: "- 1022 \<le> j"
    and r: "round_half_even (\<bar>x\<bar> / 2 powi (j - 52)) = m"
    and fin: "(of_int m :: rat) * 2 powi (j - 52) < 2 ^ 1024"
  shows "fl x = Num (sgn x * (of_int m * 2 powi (j - 52)))"
proof -
  from ilog2_unique [OF nz lo hi] have "ilog2 x = j" .
  with normal have "max (ilog2 x - 52) (- 1074) = j - 52" by simp
  with nz r fin show ?thesis by (simp add: fl_def Let_def)
qed

lemma fl_numeral:
  "(numeral k :: int) \<le> 9007199254740992 \<Longrightarrow> fl (numeral k) = Num (numeral k)"
  using fl_of_int [of "numeral k"] by simp

lemma fl_zero: "fl 0 = Num 0"
  by (simp add: fl_def)

lemma fl_one: "fl 1 = Num 1"
  using fl_of_int [of 1] by simp

section \<open>Basic facts\<close>

lemma replicate_numeral: "replicate (numeral k) x = x # replicate (pred_numeral k) x"
  by (simp add: numeral_eq_Suc)

lemma orders_persistOrders: "orders (persistOrders s) = orders s"
  by (simp add: persistOrders_def)

lemma map_of_update_same: "map_of (AList.update k v al) k = Some v"
  by (simp add: update_conv')

lemma validate_amount_positive:
  assumes "validateOrderParams w params = Inr ()"
  shows "(\<exists>a. OrderCreationParams.inputAmount params = Num a \<and> 0 < a)
       \<or> OrderCreationParams.inputAmount params = PosInf"
proof (cases "OrderCreationParams.inputAmount params")
  case (Num a)
  with assms have "a \<noteq> 0 \<and> \<not> a \<le> 0"
    by (auto simp: validateOrderParams_def num_le_def split: if_splits)
  with Num show ?thesis by simp
qed (use assms in \<open>simp_all add: validateOrderParams_def num_le_def split: if_splits\<close>)

lemma seq_case: "seq x f = (case x of Inl e \<Rightarrow> Inl e | Inr a \<Rightarrow> f a)"
  by (cases x) simp_all

lemma catch_case: "catch x h = (case x of Inl e \<Rightarrow> h e | Inr a \<Rightarrow> Inr a)"
  by (cases x) simp_all

lemma seq_eq_Inr: "seq x f = Inr b \<longleftrightarrow> (\<exists>a. x = Inr a \<and> f a = Inr b)"
  by (cases x) auto

lemma catch_eq_Inr:
  "catch x h = Inr r \<longleftrightarrow> x = Inr r \<or> (\<exists>e. x = Inl e \<and> h e = Inr r)"
  by (cases x) auto


subsection \<open>The results of the swap-execution calls\<close>

lemma get_message_cases:
  "(\<exists>m. get_message e = Inr m)
   \<or> get_message e = Inl (TypeError_reading ''undefined'' ''message'')
   \<or> get_message e = Inl (TypeError_reading ''null'' ''message'')"
  by (cases e) simp_all

lemma handler_eq_Inr:
  "seq (get_message e)
     (\<lambda>m. Inr \<lparr> signature = '''', success = False, error = m, outputAmount = None \<rparr>) = Inr r
   \<Longrightarrow> \<not> success r \<and> signature r = '''' \<and> outputAmount r = None"
  by (auto simp: seq_eq_Inr)

lemma executeSwap_success_iff:
  assumes "executeSwap w wl swapTx = Inr r"
  shows "success r \<longleftrightarrow>
           (\<exists>tx signedTx.
              deserialize w (swapTransaction swapTx) = Inr tx
            \<and> signTransaction wl tx = Inr signedTx
            \<and> sendTransaction w signedTx (MAX_RETRIES (config w)) = Inr (signature r)
            \<and> confirmTransaction w (signature r) (recentBlockhash tx)
                 (lastValidBlockHeight swapTx) = Inr None)"
  using assms
  by (auto simp: executeSwap_def seq_case catch_case split: sum.splits option.splits)

lemma executeSwap_shape:
  assumes "executeSwap w wl swapTx = Inr r"
  shows "(success r \<longrightarrow> error r = None)
       \<and> (\<not> success r \<longrightarrow> signature r = '''')"
  using assms
  by (auto simp: executeSwap_def seq_case catch_case split: sum.splits option.splits)

lemma executeSwap_outcomes:
  "(\<exists>r. executeSwap w wl swapTx = Inr r)
   \<or> executeSwap w wl swapTx = Inl (TypeError_reading ''undefined'' ''message'')
   \<or> executeSwap w wl swapTx = Inl (TypeError_reading ''null'' ''message'')"
proof (cases "executeSwap w wl swapTx")
  case (Inr r)
  then show ?thesis by simp
next
  case (Inl t)
  then obtain e where "seq (get_message e)
     (\<lambda>m. Inr \<lparr> signature = '''', success = False, error = m, outputAmount = None \<rparr>) = Inl t"
    by (auto simp: executeSwap_def catch_case split: sum.splits)
  with get_message_cases [of e] Inl show ?thesis by auto
qed

lemma executeSwap_returns:
  assumes "\<not> throws_nullish (deserialize w (swapTransaction swapTx))"
    and "\<forall>tx. \<not> throws_nullish (signTransaction wl tx)"
    and "\<forall>tx n. \<not> throws_nullish (sendTransaction w tx n)"
    and "\<forall>sig h n. \<not> throws_nullish (confirmTransaction w sig h n)"
  shows "\<exists>r. executeSwap w wl swapTx = Inr r"
proof (cases "executeSwap w wl swapTx")
  case (Inr r)
  then show ?thesis by simp
next
  case (Inl t)
  have n: "\<not> throws_nullish x \<Longrightarrow> x = Inl e \<Longrightarrow> \<exists>m. get_message e = Inr m"
    for x :: "error + 'b" and e
    by (cases e) auto
  from Inl assms n [of "deserialize w (swapTransaction swapTx)"]
    n [of "signTransaction wl tx" for tx] n [of "sendTransaction w tx k" for tx k]
    n [of "confirmTransaction w sig h k" for sig h k]
  show ?thesis
    by (fastforce simp: executeSwap_def seq_case catch_case split: sum.splits option.splits)
qed

lemma executeOrderSwap_shape:
  assumes "executeOrderSwap w wl ord = Inr r"
  shows "(success r \<longrightarrow> error r = None)
       \<and> (\<not> success r \<longrightarrow> signature r = '''')"
  using assms
  apply (simp only: executeOrderSwap_def catch_eq_Inr)
  apply (erule disjE)
   apply (simp only: seq_eq_Inr)
   apply (elim exE conjE)
   apply (drule executeSwap_shape)
   apply clarsimp
  apply (elim exE conjE)
  apply (drule handler_eq_Inr)
  apply simp
  done

lemma persistOrders_stored:
  "window_defined (storage s) \<and> \<not> setItem_throws (storage s)
   \<Longrightarrow> jupiter_orders (storage (persistOrders s)) = Some (Text (entries_json (orders s)))"
  by (simp add: persistOrders_def)

lemma map_of_update_other: "k \<noteq> k' \<Longrightarrow> map_of (AList.update k' v al) k = map_of al k"
  by (simp add: update_conv')

lemmas parseInt_eval =
  parseInt_def parseInt_str_def parse_unsigned_def strip_hex_def parse_digits_def
  is_digit_def digit_val_def digits_value_def is_space_def fl_numeral fl_zero fl_one

lemma getQuote_valid:
  assumes "getQuote w a b c d e = Inr q"
  shows "truthy_str (JupiterQuote.outAmount q)"
  using assms
  by (auto simp: getQuote_def catch_eq_Inr seq_eq_Inr validateQuote_def split: if_splits)

lemma executeOrderSwap_success:
  assumes "executeOrderSwap w wl ord = Inr r" and "success r"
  shows "\<exists>q treasuryTokenAccount lpTokenAccount swapTx r0.
           getQuote w (order_swap.inputMint ord) (order_swap.outputMint ord)
             (order_swap.inputAmount ord) (DEFAULT_SLIPPAGE (config w))
             (Some (order_swap.platformFeeBps ord)) = Inr q
         \<and> createSwapTransaction w q (publicKey wl)
               \<lparr> swap_options.feeAccount = Some treasuryTokenAccount,
                 swap_options.destinationTokenAccount = Some lpTokenAccount,
                 priorityFeeConfig = None,
                 swap_options.dynamicSlippage = None,
                 swap_options.dynamicComputeUnitLimit = None \<rparr> = Inr swapTx
         \<and> executeSwap w wl swapTx = Inr r0
         \<and> r = r0\<lparr> outputAmount := Some (JupiterQuote.outAmount q) \<rparr>"
  using assms
  apply (simp only: executeOrderSwap_def catch_eq_Inr)
  apply (erule disjE)
   apply (simp only: seq_eq_Inr)
   apply (elim exE conjE)
   apply (intro exI conjI)
      apply assumption
     apply assumption
    apply assumption
   apply simp
  apply (elim exE conjE)
  apply (drule handler_eq_Inr)
  apply simp
  done

lemma executeOrderSwap_stages:
  assumes "executeOrderSwap w wl ord = Inr r" and "success r"
  shows "\<exists>q inKey treasuryKey treasuryTokenAccount outKey lpKey lpTokenAccount swapTx r0.
           getQuote w (order_swap.inputMint ord) (order_swap.outputMint ord)
             (order_swap.inputAmount ord) (DEFAULT_SLIPPAGE (config w))
             (Some (order_swap.platformFeeBps ord)) = Inr q
         \<and> new_PublicKey w (order_swap.inputMint ord) = Inr inKey
         \<and> new_PublicKey w (order_swap.treasuryWallet ord) = Inr treasuryKey
         \<and> getAssociatedTokenAddress w inKey treasuryKey = Inr treasuryTokenAccount
         \<and> new_PublicKey w (order_swap.outputMint ord) = Inr outKey
         \<and> new_PublicKey w (order_swap.liquidityProvider ord) = Inr lpKey
         \<and> getAssociatedTokenAddress w outKey lpKey = Inr lpTokenAccount
         \<and> createSwapTransaction w q (publicKey wl)
               \<lparr> swap_options.feeAccount = Some treasuryTokenAccount,
                 swap_options.destinationTokenAccount = Some lpTokenAccount,
                 priorityFeeConfig = None,
                 swap_options.dynamicSlippage = None,
                 swap_options.dynamicComputeUnitLimit = None \<rparr> = Inr swapTx
         \<and> executeSwap w wl swapTx = Inr r0
         \<and> success r0
         \<and> signature r = signature r0"
  using assms
  apply (simp only: executeOrderSwap_def catch_eq_Inr)
  apply (erule disjE)
   apply (simp only: seq_eq_Inr)
   apply (elim exE conjE)
   apply (intro exI conjI)
             apply assumption
            apply assumption
           apply assumption
          apply assumption
         apply assumption
        apply assumption
       apply assumption
      apply assumption
     apply assumption
    apply clarsimp
   apply clarsimp
  apply (elim exE conjE)
  apply (drule handler_eq_Inr)
  apply simp
  done

lemma executeOrderSwap_all_stages:
  assumes "getQuote w (order_swap.inputMint ord) (order_swap.outputMint ord)
             (order_swap.inputAmount ord) (DEFAULT_SLIPPAGE (config w))
             (Some (order_swap.platformFeeBps ord)) = Inr q"
    and "new_PublicKey w (order_swap.inputMint ord) = Inr inKey"
    and "new_PublicKey w (order_swap.treasuryWallet ord) = Inr treasuryKey"
    and "getAssociatedTokenAddress w inKey treasuryKey = Inr treasuryTokenAccount"
    and "new_PublicKey w (order_swap.outputMint ord) = Inr outKey"
    and "new_PublicKey w (order_swap.liquidityProvider ord) = Inr lpKey"
    and "getAssociatedTokenAddress w outKey lpKey = Inr lpTokenAccount"
    and "createSwapTransaction w q (publicKey wl)
               \<lparr> swap_options.feeAccount = Some treasuryTokenAccount,
                 swap_options.destinationTokenAccount = Some lpTokenAccount,
                 priorityFeeConfig = None,
                 swap_options.dynamicSlippage = None,
                 swap_options.dynamicComputeUnitLimit = None \<rparr> = Inr swapTx"
    and "executeSwap w wl swapTx = Inr r0"
  shows "executeOrderSwap w wl ord = Inr (r0\<lparr> outputAmount := Some (JupiterQuote.outAmount q) \<rparr>)"
  using assms by (simp add: executeOrderSwap_def)

lemma executeOrderSwap_success_iff:
  assumes "executeOrderSwap w wl ord = Inr r"
  shows "success r \<longleftrightarrow>
         (\<exists>q inKey treasuryKey treasuryTokenAccount outKey lpKey lpTokenAccount swapTx r0.
           getQuote w (order_swap.inputMint ord) (order_swap.outputMint ord)
             (order_swap.inputAmount ord) (DEFAULT_SLIPPAGE (config w))
             (Some (order_swap.platformFeeBps ord)) = Inr q
         \<and> new_PublicKey w (order_swap.inputMint ord) = Inr inKey
         \<and> new_PublicKey w (order_swap.treasuryWallet ord) = Inr treasuryKey
         \<and> getAssociatedTokenAddress w inKey treasuryKey = Inr treasuryTokenAccount
         \<and> new_PublicKey w (order_swap.outputMint ord) = Inr outKey
         \<and> new_PublicKey w (order_swap.liquidityProvider ord) = Inr lpKey
         \<and> getAssociatedTokenAddress w outKey lpKey = Inr lpTokenAccount
         \<and> createSwapTransaction w q (publicKey wl)
               \<lparr> swap_options.feeAccount = Some treasuryTokenAccount,
                 swap_options.destinationTokenAccount = Some lpTokenAccount,
                 priorityFeeConfig = None,
                 swap_options.dynamicSlippage = None,
                 swap_options.dynamicComputeUnitLimit = None \<rparr> = Inr swapTx
         \<and> executeSwap w wl swapTx = Inr r0
         \<and> success r0
         \<and> signature r = signature r0)"
proof
  assume "success r"
  with assms show "\<exists>q inKey treasuryKey treasuryTokenAccount outKey lpKey lpTokenAccount swapTx r0.
           getQuote w (order_swap.inputMint ord) (order_swap.outputMint ord)
             (order_swap.inputAmount ord) (DEFAULT_SLIPPAGE (config w))
             (Some (order_swap.platformFeeBps ord)) = Inr q
         \<and> new_PublicKey w (order_swap.inputMint ord) = Inr inKey
         \<and> new_PublicKey w (order_swap.treasuryWallet ord) = Inr treasuryKey
         \<and> getAssociatedTokenAddress w inKey treasuryKey = Inr treasuryTokenAccount
         \<and> new_PublicKey w (order_swap.outputMint ord) = Inr outKey
         \<and> new_PublicKey w (order_swap.liquidityProvider ord) = Inr lpKey
         \<and> getAssociatedTokenAddress w outKey lpKey = Inr lpTokenAccount
         \<and> createSwapTransaction w q (publicKey wl)
               \<lparr> swap_options.feeAccount = Some treasuryTokenAccount,
                 swap_options.destinationTokenAccount = Some lpTokenAccount,
                 priorityFeeConfig = None,
                 swap_options.dynamicSlippage = None,
                 swap_options.dynamicComputeUnitLimit = None \<rparr> = Inr swapTx
         \<and> executeSwap w wl swapTx = Inr r0
         \<and> success r0
         \<and> signature r = signature r0"
    by (rule executeOrderSwap_stages)
next
  assume "\<exists>q inKey treasuryKey treasuryTokenAccount outKey lpKey lpTokenAccount swapTx r0.
           getQuote w (order_swap.inputMint ord) (order_swap.outputMint ord)
             (order_swap.inputAmount ord) (DEFAULT_SLIPPAGE (config w))
             (Some (order_swap.platformFeeBps ord)) = Inr q
         \<and> new_PublicKey w (order_swap.inputMint ord) = Inr inKey
         \<and> new_PublicKey w (order_swap.treasuryWallet ord) = Inr treasuryKey
         \<and> getAssociatedTokenAddress w inKey treasuryKey = Inr treasuryTokenAccount
         \<and> new_PublicKey w (order_swap.outputMint ord) = Inr outKey
         \<and> new_PublicKey w (order_swap.liquidityProvider ord) = Inr lpKey
         \<and> getAssociatedTokenAddress w outKey lpKey = Inr lpTokenAccount
         \<and> createSwapTransaction w q (publicKey wl)
               \<lparr> swap_options.feeAccount = Some treasuryTokenAccount,
                 swap_options.destinationTokenAccount = Some lpTokenAccount,
                 priorityFeeConfig = None,
                 swap_options.dynamicSlippage = None,
                 swap_options.dynamicComputeUnitLimit = None \<rparr> = Inr swapTx
         \<and> executeSwap w wl swapTx = Inr r0
         \<and> success r0
         \<and> signature r = signature r0"
  then obtain q inKey treasuryKey treasuryTokenAccount outKey lpKey lpTokenAccount swapTx r0
    where st: "getQuote w (order_swap.inputMint ord) (order_swap.outputMint ord)
             (order_swap.inputAmount ord) (DEFAULT_SLIPPAGE (config w))
             (Some (order_swap.platformFeeBps ord)) = Inr q"
      "new_PublicKey w (order_swap.inputMint ord) = Inr inKey"
      "new_PublicKey w (order_swap.treasuryWallet ord) = Inr treasuryKey"
      "getAssociatedTokenAddress w inKey treasuryKey = Inr treasuryTokenAccount"
      "new_PublicKey w (order_swap.outputMint ord) = Inr outKey"
      "new_PublicKey w (order_swap.liquidityProvider ord) = Inr lpKey"
      "getAssociatedTokenAddress w outKey lpKey = Inr lpTokenAccount"
      "createSwapTransaction w q (publicKey wl)
               \<lparr> swap_options.feeAccount = Some treasuryTokenAccount,
                 swap_options.destinationTokenAccount = Some lpTokenAccount,
                 priorityFeeConfig = None,
                 swap_options.dynamicSlippage = None,
                 swap_options.dynamicComputeUnitLimit = None \<rparr> = Inr swapTx"
      "executeSwap w wl swapTx = Inr r0"
      and s0: "success r0"
    by (elim exE conjE)
  from executeOrderSwap_all_stages [OF st] assms
  have "r = r0\<lparr> outputAmount := Some (JupiterQuote.outAmount q) \<rparr>" by simp
  with s0 show "success r" by simp
qed


subsection \<open>Operations on an order that is not pending\<close>

lemma executeOrder_other:
  assumes "k \<noteq> orderId"
  shows "getOrder k (snd (executeOrder w wl orderId s)) = getOrder k s"
  using assms
  by (simp add: executeOrder_def executeOrder_continue_def executeOrder_catch_def getOrder_def orders_persistOrders
      map_of_update_other split: option.splits sum.splits)

lemma cancelOrder_other:
  assumes "k \<noteq> orderId"
  shows "getOrder k (snd (cancelOrder orderId userKey s)) = getOrder k s"
  using assms
  by (simp add: cancelOrder_def getOrder_def orders_persistOrders map_of_update_other
      split: option.splits)

lemma updateOrderQuote_other:
  assumes "k \<noteq> orderId"
  shows "getOrder k (snd (updateOrderQuote w orderId s)) = getOrder k s"
  using assms
  by (simp add: updateOrderQuote_def updateOrderQuote_continue_def getOrder_def orders_persistOrders map_of_update_other
      split: option.splits sum.splits)

lemma executeOrder_refuses:
  assumes "getOrder orderId s = Some order" and "status order \<noteq> PENDING"
  shows "executeOrder w wl orderId s
         = (Inl (Error (''Order is not in pending status. Current status: ''
                        @ status_string (status order))), s)"
  using assms by (simp add: executeOrder_def executeOrder_continue_def getOrder_def)

lemma cancelOrder_refuses:
  assumes "getOrder orderId s = Some order" and "status order \<noteq> PENDING"
  shows "\<exists>e. cancelOrder orderId userKey s = (Inl e, s)"
  using assms by (simp add: cancelOrder_def getOrder_def)

lemma updateOrderQuote_refuses:
  assumes "getOrder orderId s = Some order" and "status order \<noteq> PENDING"
  shows "updateOrderQuote w orderId s
         = (Inl (Error ''Cannot update quote for non-pending order''), s)"
  using assms by (simp add: updateOrderQuote_def updateOrderQuote_continue_def getOrder_def)

lemma perform_keeps_terminal:
  assumes "getOrder k s = Some order" and "status order \<noteq> PENDING"
  shows "getOrder k (snd (perform x s)) = Some order"
proof (cases x)
  case (ExecuteOrder w wl orderId)
  show ?thesis
  proof (cases "k = orderId")
    case True
    with assms ExecuteOrder show ?thesis by (simp add: executeOrder_refuses)
  next
    case False
    with assms ExecuteOrder show ?thesis by (simp add: executeOrder_other)
  qed
next
  case (CancelOrder orderId userKey)
  show ?thesis
  proof (cases "k = orderId")
    case True
    with assms obtain e where "cancelOrder orderId userKey s = (Inl e, s)"
      using cancelOrder_refuses by blast
    with assms CancelOrder True show ?thesis by simp
  next
    case False
    with assms CancelOrder show ?thesis by (simp add: cancelOrder_other)
  qed
next
  case (UpdateOrderQuote w orderId)
  show ?thesis
  proof (cases "k = orderId")
    case True
    with assms UpdateOrderQuote show ?thesis by (simp add: updateOrderQuote_refuses)
  next
    case False
    with assms UpdateOrderQuote show ?thesis by (simp add: updateOrderQuote_other)
  qed
qed

lemma run_keeps_terminal:
  assumes "getOrder k s = Some order" and "status order \<noteq> PENDING"
  shows "getOrder k (run xs s) = Some order"
  using assms
proof (induction xs arbitrary: s)
  case Nil
  then show ?case by simp
next
  case (Cons x xs)
  from Cons.prems have "getOrder k (snd (perform x s)) = Some order"
    by (rule perform_keeps_terminal)
  with Cons.IH Cons.prems(2) show ?case by simp
qed


lemma executeOrder_catch_raises:
  "\<exists>t s'. executeOrder_catch orderId order e s = (Inl t, s')"
  by (simp add: executeOrder_catch_def split: sum.splits)

lemma executeOrder_succeeded:
  assumes "getOrder orderId s = Some order"
    and "executeOrder w wl orderId s = (Inr (), s')"
  shows "status order = PENDING
       \<and> (\<exists>r. executeOrderSwap w wl
                 \<lparr> order_swap.inputMint = Order.inputToken order,
                   order_swap.outputMint = Order.outputToken order,
                   order_swap.inputAmount = Order.inputAmount order,
                   order_swap.liquidityProvider = Order.liquidityProvider order,
                   order_swap.treasuryWallet = OrderManager.treasuryWallet s,
                   platformFeeBps = protocolFeeBps s \<rparr> = Inr r
              \<and> success r)"
proof -
  let ?ord = "\<lparr> order_swap.inputMint = Order.inputToken order,
                order_swap.outputMint = Order.outputToken order,
                order_swap.inputAmount = Order.inputAmount order,
                order_swap.liquidityProvider = Order.liquidityProvider order,
                order_swap.treasuryWallet = OrderManager.treasuryWallet s,
                platformFeeBps = protocolFeeBps s \<rparr>"
  from assms have pending: "status order = PENDING"
    by (simp add: executeOrder_def getOrder_def split: if_splits)
  with assms have c: "executeOrder_continue orderId order (executeOrderSwap w wl ?ord) s
                      = (Inr (), s')"
    by (simp add: executeOrder_def getOrder_def)
  show ?thesis
  proof (cases "executeOrderSwap w wl ?ord")
    case (Inl e)
    with c executeOrder_catch_raises [of orderId order e s] show ?thesis
      by (auto simp: executeOrder_continue_def)
  next
    case (Inr r)
    with c executeOrder_catch_raises [of orderId
        "order\<lparr> status := FAILED,
                errorMessage := Some (opt_str_or (error r) ''Unknown execution error'') \<rparr>"
        "Error (opt_str_or (error r) ''Swap execution failed'')" s]
    have "success r"
      by (auto simp: executeOrder_continue_def split: if_splits)
    with pending Inr show ?thesis by simp
  qed
qed

subsection \<open>Calls that are suspended while others run\<close>

text \<open>
  \<open>executeOrder\<close> is \<open>executeOrder_begin\<close> followed at once by \<open>executeOrder_resume\<close>, and
  likewise \<open>updateOrderQuote\<close>.
\<close>

lemma executeOrder_begin_throws:
  assumes "executeOrder_begin w wl orderId s = Inl e"
  shows "executeOrder w wl orderId s = (Inl e, s)"
  using assms
  by (auto simp: executeOrder_begin_def executeOrder_def split: option.splits if_splits)

lemma executeOrder_begin_resume:
  assumes "executeOrder_begin w wl orderId s = Inr outcome"
  shows "executeOrder_resume orderId outcome s = Some (executeOrder w wl orderId s)"
  using assms
  by (auto simp: executeOrder_begin_def executeOrder_resume_def executeOrder_def
      split: option.splits if_splits)

lemma updateOrderQuote_begin_throws:
  assumes "updateOrderQuote_begin w orderId s = Inl e"
  shows "updateOrderQuote w orderId s = (Inl e, s)"
  using assms
  by (auto simp: updateOrderQuote_begin_def updateOrderQuote_def split: option.splits if_splits)

lemma updateOrderQuote_begin_resume:
  assumes "updateOrderQuote_begin w orderId s = Inr outcome"
  shows "updateOrderQuote_resume orderId outcome s = Some (updateOrderQuote w orderId s)"
  using assms
  by (auto simp: updateOrderQuote_begin_def updateOrderQuote_resume_def updateOrderQuote_def
      split: option.splits if_splits)

text \<open>
  A call begins only on a pending order. When \<open>executeOrder\<close> resumes, it writes the
  status whatever the status has become in the meantime; \<open>updateOrderQuote\<close> writes the
  quote, and leaves the status.
\<close>

lemma executeOrder_begin_pending:
  assumes "executeOrder_begin w wl orderId s = Inr outcome"
  shows "\<exists>order. getOrder orderId s = Some order \<and> status order = PENDING"
  using assms
  by (auto simp: executeOrder_begin_def getOrder_def split: option.splits if_splits)

lemma executeOrder_resume_writes_status:
  assumes "executeOrder_resume orderId outcome s = Some (r, s')"
  shows "\<exists>order'. getOrder orderId s' = Some order' \<and> status order' \<in> {FULFILLED, FAILED}"
  using assms
  by (auto simp: executeOrder_resume_def executeOrder_continue_def executeOrder_catch_def
      getOrder_def orders_persistOrders map_of_update_same
      split: option.splits sum.splits if_splits)

lemma updateOrderQuote_resume_keeps_status:
  assumes "getOrder orderId s = Some order"
    and "updateOrderQuote_resume orderId outcome s = Some (r, s')"
  shows "\<exists>order'. getOrder orderId s' = Some order' \<and> status order' = status order"
  using assms
  by (auto simp: updateOrderQuote_resume_def updateOrderQuote_continue_def
      getOrder_def orders_persistOrders map_of_update_same
      split: option.splits sum.splits if_splits)
subsection \<open>Reading back what was written\<close>

lemma read_SwapInfo_json: "read_SwapInfo (SwapInfo_json i) = Some i"
  by (cases i) (simp add: SwapInfo_json_def required_def)

lemma read_RouteStep_json: "read_RouteStep (RouteStep_json r) = Some r"
  by (cases r) (simp add: RouteStep_json_def required_def read_SwapInfo_json)

lemma read_list_RouteStep_json: "read_list read_RouteStep (map RouteStep_json rs) = Some rs"
  by (induction rs) (simp_all add: read_RouteStep_json)

lemma read_JupiterQuote_json: "read_JupiterQuote (JupiterQuote_json q) = Some q"
  by (cases q) (simp add: JupiterQuote_json_def required_def read_list_RouteStep_json)

lemma read_status_string: "read_status (JStr (status_string st)) = Some st"
  by (cases st) (simp_all add: read_status_def)

lemma read_number_json: "isFinite n \<Longrightarrow> read_number (number_json n) = Some n"
  by (cases n) simp_all

lemma read_Order_json:
  assumes "numbers_proper order"
  shows "read_Order (Order_json order) = Some order"
proof (cases order)
  case (fields a b c d e f g h i j k l m n p q r)
  with assms show ?thesis
    by (cases f; cases n; cases p)
       (simp_all add: Order_json_def required_def absent_or_def optional_def numbers_proper_def
          read_number_json read_status_string read_JupiterQuote_json)
qed


lemma Map_entries_json:
  "Map_entries (entries_json es)
   = Some (map (\<lambda>(k, order). (Some (JStr k), Some (Order_json order))) es)"
proof -
  have "read_list entry_of (map (\<lambda>(k, order). JArr [JStr k, Order_json order]) es)
        = Some (map (\<lambda>(k, order). (Some (JStr k), Some (Order_json order))) es)"
    by (induction es) (auto simp: index_def)
  then show ?thesis by (simp add: Map_entries_def entries_json_def)
qed

lemma entries_json_not_null: "entries_json es \<noteq> JNull"
  by (simp add: entries_json_def)

lemma string_keys_json:
  "read_list string_key (map (\<lambda>(k, order). (Some (JStr k), Some (Order_json order))) es)
   = Some (map (\<lambda>(k, order). (k, Some (Order_json order))) es)"
  by (induction es) auto

lemma read_values_json:
  assumes "list_all (numbers_proper \<circ> snd) es"
  shows "read_list read_value (map (\<lambda>(k, order). (k, Some (Order_json order))) es) = Some es"
  using assms by (induction es) (auto simp: read_Order_json)

lemma update_new_key: "k \<notin> fst ` set m \<Longrightarrow> AList.update k v m = m @ [(k, v)]"
  by (induction m) auto

lemma foldl_update_distinct:
  assumes "distinct (map fst (m @ es))"
  shows "foldl (\<lambda>m (k, v). AList.update k v m) m es = m @ es"
  using assms
proof (induction es arbitrary: m)
  case Nil
  then show ?case by simp
next
  case (Cons e es)
  obtain k v where e: "e = (k, v)" by (cases e)
  from Cons.prems e have new: "k \<notin> fst ` set m" by auto
  from Cons.prems e have "distinct (map fst ((m @ [(k, v)]) @ es))" by simp
  from Cons.IH [OF this] new e show ?case by (simp add: update_new_key)
qed

lemma new_Map_distinct: "distinct (map fst es) \<Longrightarrow> new_Map es = es"
  using foldl_update_distinct [of "[]" es] by (simp add: new_Map_def)


lemma new_Map_json:
  assumes "distinct (map fst es)"
  shows "new_Map (map (\<lambda>(k, order). (k, Some (Order_json order))) es)
         = map (\<lambda>(k, order). (k, Some (Order_json order))) es"
proof -
  have "map fst (map (\<lambda>(k, order). (k, Some (Order_json order))) es) = map fst es"
    by (induction es) auto
  with assms
  have "distinct (map fst (map (\<lambda>(k, order). (k, Some (Order_json order))) es))"
    by (simp only:)
  then show ?thesis by (rule new_Map_distinct)
qed

lemmas reads_export = Map_entries_json string_keys_json new_Map_json read_values_json

subsection \<open>The number in a generated id\<close>

















subsection \<open>The counter and the ids\<close>









lemma counter_persistOrders: "orderIdCounter (persistOrders s) = orderIdCounter s"
  by (simp add: persistOrders_def)

lemma increment_small:
  assumes "c < 9007199254740992"
  shows "increment c = Suc c"
proof -
  from assms have "\<bar>int c + 1\<bar> \<le> 2 ^ 53" by simp
  from fl_of_int [OF this] have "fl (of_nat c + 1) = Num (of_int (int c + 1))" by simp
  then show ?thesis by (simp add: increment_def)
qed

lemma increment_at_limit: "increment 9007199254740992 = 9007199254740992"
proof -
  have f: "\<lfloor>9007199254740993 / 2 :: rat\<rfloor> = 4503599627370496"
    by (simp add: floor_eq_iff)
  have r: "round_half_even (\<bar>9007199254740993 :: rat\<bar> / 2 powi (53 - 52))
           = 4503599627370496"
    by (simp add: round_half_even_def f)
  have "fl 9007199254740993
        = Num (sgn (9007199254740993 :: rat) * (of_int 4503599627370496 * 2 powi (53 - 52)))"
    by (rule fl_normal [OF _ _ _ _ r]) simp_all
  then show ?thesis by (simp add: increment_def)
qed

















section \<open>The protocol fee of a new order\<close>

text \<open>
  Claim C1, as amended. For valid creation parameters, a configured treasury wallet
  and a quote that the service delivers, \<open>createOrder\<close> returns the id of a stored
  order that is pending and whose \<open>protocolFee\<close> is
  \<open>(inputAmount * protocolFeeBps) / 10000\<close> as JavaScript computes it on numbers: the
  product is rounded to the nearest double, it is divided by \<open>10000\<close>, and the quotient
  is rounded to the nearest double. No floor is taken and no integer arithmetic is
  used, so the fee has a fractional part whenever the quotient has one. When the amount
  and the rate are integers, their product is at most \<open>2^53\<close> and \<open>10000\<close> divides it,
  the fee is the exact quotient: with \<open>inputAmount = 1000000\<close> and
  \<open>protocolFeeBps = 100\<close> it is \<open>10000\<close>.
\<close>

theorem createOrder_stores_pending_order_with_fee:
  assumes valid: "validateOrderParams w params = Inr ()"
    and treasury: "truthy_str (OrderManager.treasuryWallet s)"
    and quoted: "getQuote w (OrderCreationParams.inputToken params)
                   (OrderCreationParams.outputToken params)
                   (OrderCreationParams.inputAmount params) (Num 50)
                   (Some (protocolFeeBps s)) = Inr q"
  shows "\<exists>orderId s' order.
           createOrder w now_id now_ts params userKey s = (Inr orderId, s')
         \<and> getOrder orderId s' = Some order
         \<and> status order = PENDING
         \<and> Order.inputAmount order = OrderCreationParams.inputAmount params
         \<and> protocolFee order
             = num_divide
                 (num_times (OrderCreationParams.inputAmount params) (protocolFeeBps s)) 10000
         \<and> (\<forall>a b. OrderCreationParams.inputAmount params = Num a \<and> protocolFeeBps s = Num b
               \<longrightarrow> protocolFee order
                   = (case fl (a * b) of Num p \<Rightarrow> fl (p / 10000) | other \<Rightarrow> other))
         \<and> (\<forall>a b m. OrderCreationParams.inputAmount params = Num (of_int a)
                 \<and> protocolFeeBps s = Num (of_int b)
                 \<and> \<bar>a * b\<bar> \<le> 2 ^ 53 \<and> a * b = 10000 * m
               \<longrightarrow> protocolFee order = Num (of_int m))"
proof -
  let ?fee = "num_divide
                (num_times (OrderCreationParams.inputAmount params) (protocolFeeBps s)) 10000"
  have general: "\<forall>a b. OrderCreationParams.inputAmount params = Num a \<and> protocolFeeBps s = Num b
      \<longrightarrow> ?fee = (case fl (a * b) of Num p \<Rightarrow> fl (p / 10000) | other \<Rightarrow> other)"
  proof (intro allI impI)
    fix a b
    assume ab: "OrderCreationParams.inputAmount params = Num a \<and> protocolFeeBps s = Num b"
    have "num_divide (fl (a * b)) 10000
          = (case fl (a * b) of Num p \<Rightarrow> fl (p / 10000) | other \<Rightarrow> other)"
      by (cases "fl (a * b)")
         (simp_all add: num_divide_def fl_def Let_def split: if_splits)
    with ab show "?fee = (case fl (a * b) of Num p \<Rightarrow> fl (p / 10000) | other \<Rightarrow> other)"
      by (simp add: num_times_def)
  qed
  have exact: "\<forall>a b m. OrderCreationParams.inputAmount params = Num (of_int a)
                 \<and> protocolFeeBps s = Num (of_int b)
                 \<and> \<bar>a * b\<bar> \<le> 2 ^ 53 \<and> a * b = 10000 * m
               \<longrightarrow> ?fee = Num (of_int m)"
  proof (intro allI impI, elim conjE)
    fix a b m :: int
    assume ia: "OrderCreationParams.inputAmount params = Num (of_int a)"
      and ib: "protocolFeeBps s = Num (of_int b)"
      and ab: "\<bar>a * b\<bar> \<le> 2 ^ 53" and m: "a * b = 10000 * m"
    from fl_of_int [OF ab] have p: "fl (of_int a * of_int b) = Num (of_int (a * b))" by simp
    have "\<bar>m\<bar> \<le> \<bar>10000 * m\<bar>" by (simp add: abs_mult)
    with ab m have "\<bar>m\<bar> \<le> 2 ^ 53" by (simp only:)
    from fl_of_int [OF this] have "fl (of_int m) = Num (of_int m)" .
    moreover from m have "(of_int (a * b) :: rat) / 10000 = of_int m" by simp
    ultimately show "?fee = Num (of_int m)"
      using ia ib p by (simp add: num_times_def num_divide_def)
  qed
  show ?thesis
    using valid treasury quoted general exact
    by (simp add: createOrder_def generateOrderId_def increment_small getOrder_def orders_persistOrders
        map_of_update_same)
qed

text \<open>
  The scenario of the claim, one million units at 100 basis points; and an amount of
  \<open>2^53 - 1\<close> units, where the product is rounded to \<open>900719925474099072\<close> and the
  quotient to \<open>2882303761517117/32\<close>, that is \<open>90071992547409.90625\<close>.
\<close>

theorem createOrder_fee_witness:
  "fst (createOrder world0 1700000000000 1700000000001 (params0 1000000) ''Alice'' manager0)
     = Inr ''order_1700000000000_0001''
   \<and> map_option protocolFee (getOrder ''order_1700000000000_0001''
        (snd (createOrder world0 1700000000000 1700000000001 (params0 1000000) ''Alice'' manager0)))
     = Some (Num 10000)
   \<and> map_option status (getOrder ''order_1700000000000_0001''
        (snd (createOrder world0 1700000000000 1700000000001 (params0 1000000) ''Alice'' manager0)))
     = Some PENDING
   \<and> map_option protocolFee (getOrder ''order_1700000000000_0001''
        (snd (createOrder world0 1700000000000 1700000000001 (params0 9007199254740991)
                ''Alice'' manager0)))
     = Some (Num (2882303761517117 / 32))"
proof -
  have v: "validateOrderParams world0 (params0 a) = Inr ()" if "0 < a" for a
    using that
    by (simp add: validateOrderParams_def params0_def world0_def truthy_str_def num_le_def)
  have t: "truthy_str (OrderManager.treasuryWallet manager0)"
    by (simp add: manager0_def truthy_str_def)
  have g: "getQuote world0 (OrderCreationParams.inputToken (params0 a))
             (OrderCreationParams.outputToken (params0 a))
             (OrderCreationParams.inputAmount (params0 a)) (Num 50)
             (Some (protocolFeeBps manager0)) = Inr quote0" for a
    by (simp add: getQuote_def world0_def validateQuote_def quote0_def truthy_str_def
        params0_def)
  have i: "fst (createOrder world0 1700000000000 1700000000001 (params0 a) ''Alice'' manager0)
     = Inr ''order_1700000000000_0001''" if "0 < a" for a
    using v [OF that] t g [of a]
    by (simp add: createOrder_def generateOrderId_def increment_small manager0_def padStart_def digit_char_def
        toString_nat.simps replicate_numeral)
  have p1: "fl 900719925474099100 = Num 900719925474099072"
  proof -
    have r: "round_half_even (\<bar>900719925474099100 :: rat\<bar> / 2 powi (59 - 52))
             = 7036874417766399"
      by (rule round_half_even_near) (simp_all add: field_simps)
    have "fl 900719925474099100
          = Num (sgn (900719925474099100 :: rat)
                 * (of_int 7036874417766399 * 2 powi (59 - 52)))"
      by (rule fl_normal [OF _ _ _ _ r]) simp_all
    then show ?thesis by simp
  qed
  have p2: "fl (900719925474099072 / 10000) = Num (2882303761517117 / 32)"
  proof -
    have r: "round_half_even (\<bar>900719925474099072 / 10000 :: rat\<bar> / 2 powi (46 - 52))
             = 5764607523034234"
      by (rule round_half_even_near) (simp_all add: power_int_minus field_simps)
    have "fl (900719925474099072 / 10000)
          = Num (sgn (900719925474099072 / 10000 :: rat)
                 * (of_int 5764607523034234 * 2 powi (46 - 52)))"
      by (rule fl_normal [OF _ _ _ _ r]) (simp_all add: power_int_minus)
    then show ?thesis by (simp add: power_int_minus)
  qed
  from createOrder_stores_pending_order_with_fee [OF v t g,
      of 1000000 1700000000000 1700000000001 "''Alice''"]
  obtain orderId s' order where
    r: "createOrder world0 1700000000000 1700000000001 (params0 1000000) ''Alice'' manager0
          = (Inr orderId, s')"
       "getOrder orderId s' = Some order" "status order = PENDING"
    and e: "\<forall>a b m. OrderCreationParams.inputAmount (params0 1000000) = Num (of_int a)
                 \<and> protocolFeeBps manager0 = Num (of_int b)
                 \<and> \<bar>a * b\<bar> \<le> 2 ^ 53 \<and> a * b = 10000 * m
               \<longrightarrow> protocolFee order = Num (of_int m)"
    by auto
  from e [rule_format, of 1000000 100 10000] have fee: "protocolFee order = Num 10000"
    by (simp add: params0_def manager0_def)
  from createOrder_stores_pending_order_with_fee [OF v t g,
      of 9007199254740991 1700000000000 1700000000001 "''Alice''"]
  obtain orderId2 s2 order2 where
    r2: "createOrder world0 1700000000000 1700000000001 (params0 9007199254740991)
           ''Alice'' manager0 = (Inr orderId2, s2)"
       "getOrder orderId2 s2 = Some order2"
    and d: "\<forall>a b. OrderCreationParams.inputAmount (params0 9007199254740991) = Num a
              \<and> protocolFeeBps manager0 = Num b
            \<longrightarrow> protocolFee order2
                = (case fl (a * b) of Num p \<Rightarrow> fl (p / 10000) | other \<Rightarrow> other)"
    by auto
  from d [rule_format, of 9007199254740991 100]
  have fee2: "protocolFee order2 = Num (2882303761517117 / 32)"
    using p2 by (simp add: params0_def manager0_def p1)
  from i [of 1000000] r fee i [of 9007199254740991] r2 fee2 show ?thesis by simp
qed

text \<open>
  The claim as it was stated fails: with \<open>inputAmount = 150\<close> and
  \<open>protocolFeeBps = 100\<close> the stored fee is \<open>3/2\<close>, and the floor of the quotient is
  \<open>1\<close>.
\<close>

theorem createOrder_fee_floor_counterexample:
  "validateOrderParams world0 (params0 150) = Inr ()
   \<and> fst (createOrder world0 1700000000000 1700000000001 (params0 150) ''Alice'' manager0)
     = Inr ''order_1700000000000_0001''
   \<and> map_option protocolFee (getOrder ''order_1700000000000_0001''
        (snd (createOrder world0 1700000000000 1700000000001 (params0 150) ''Alice'' manager0)))
     = Some (Num (3 / 2))
   \<and> map_option protocolFee (getOrder ''order_1700000000000_0001''
        (snd (createOrder world0 1700000000000 1700000000001 (params0 150) ''Alice'' manager0)))
     \<noteq> Some (Num (of_int \<lfloor>150 * 100 / 10000 :: rat\<rfloor>))"
proof -
  have fl: "\<lfloor>150 * 100 / 10000 :: rat\<rfloor> = 1"
    by (simp add: floor_eq_iff)
  have half: "fl (3 / 2) = Num (3 / 2)"
    using fl_dyadic [of 3 "- 1"] by simp
  have fee: "num_divide (num_times (Num 150) (Num 100)) 10000 = Num (3 / 2)"
    by (simp add: num_times_def num_divide_def fl_numeral half)
  show ?thesis
    unfolding fl
    by (simp add: createOrder_def validateOrderParams_def params0_def world0_def manager0_def
        truthy_str_def getQuote_def validateQuote_def quote0_def generateOrderId_def increment_small
        padStart_def digit_char_def toString_nat.simps replicate_numeral getOrder_def
        orders_persistOrders map_of_update_same num_le_def fee)
qed
section \<open>Terminal states\<close>

text \<open>
  When the calls do not overlap, the claim holds. Once the status of an order is
  fulfilled, failed or cancelled, no sequence of the operations \<open>executeOrder\<close>,
  \<open>cancelOrder\<close> and \<open>updateOrderQuote\<close> (on this order or on others, each run to its
  end before the next starts) changes its status, or any other of its fields. Each of
  the three operations, called on such an order, raises an error and leaves the state
  as it was.
\<close>

lemma terminal_status_kept_in_sequence:
  assumes found: "getOrder orderId s = Some order"
    and terminal: "status order \<in> {FULFILLED, FAILED, CANCELLED}"
  shows "getOrder orderId (run xs s) = Some order
       \<and> executeOrder w wl orderId s
           = (Inl (Error (''Order is not in pending status. Current status: ''
                          @ status_string (status order))), s)
       \<and> (\<exists>e. cancelOrder orderId userKey s = (Inl e, s))
       \<and> updateOrderQuote w orderId s
           = (Inl (Error ''Cannot update quote for non-pending order''), s)"
proof -
  from terminal have np: "status order \<noteq> PENDING" by auto
  from found np show ?thesis
    using run_keeps_terminal executeOrder_refuses cancelOrder_refuses updateOrderQuote_refuses
    by blast
qed

text \<open>
  Claim C2. The claim fails when calls overlap. \<open>executeOrder\<close> tests the status, and
  is then suspended until the swap has an outcome; when it resumes it writes the
  status without a second test. \<open>cancelOrder\<close> has no \<open>await\<close> and runs in between.
  Alice's order is pending. \<open>executeOrder\<close> begins on it, and the swap it awaits will
  succeed. Alice cancels the order: the call succeeds and the order is cancelled.
  Then \<open>executeOrder\<close> resumes, and the cancelled order becomes fulfilled.
\<close>

theorem cancelled_order_becomes_fulfilled:
  "map_option status (getOrder ''order_1700000000000_0001'' manager1) = Some PENDING
   \<and> executeOrder_begin world0 wallet0 ''order_1700000000000_0001'' manager1
     = Inr (Inr \<lparr> signature = ''signature1'', success = True, error = None,
                  outputAmount = Some ''2500000'' \<rparr>)
   \<and> fst (cancelOrder ''order_1700000000000_0001'' ''Alice'' manager1) = Inr ()
   \<and> map_option status (getOrder ''order_1700000000000_0001''
        (snd (cancelOrder ''order_1700000000000_0001'' ''Alice'' manager1)))
     = Some CANCELLED
   \<and> map_option fst
        (executeOrder_resume ''order_1700000000000_0001''
           (Inr \<lparr> signature = ''signature1'', success = True, error = None,
                   outputAmount = Some ''2500000'' \<rparr>)
           (snd (cancelOrder ''order_1700000000000_0001'' ''Alice'' manager1)))
     = Some (Inr ())
   \<and> map_option (\<lambda>r. map_option status (getOrder ''order_1700000000000_0001'' (snd r)))
        (executeOrder_resume ''order_1700000000000_0001''
           (Inr \<lparr> signature = ''signature1'', success = True, error = None,
                   outputAmount = Some ''2500000'' \<rparr>)
           (snd (cancelOrder ''order_1700000000000_0001'' ''Alice'' manager1)))
     = Some (Some FULFILLED)"
proof -
  have swap: "executeOrderSwap world0 wallet0
                 \<lparr> order_swap.inputMint = Order.inputToken order0,
                   order_swap.outputMint = Order.outputToken order0,
                   order_swap.inputAmount = Order.inputAmount order0,
                   order_swap.liquidityProvider = Order.liquidityProvider order0,
                   order_swap.treasuryWallet = ''Treasury'',
                   platformFeeBps = Num 100 \<rparr>
     = Inr \<lparr> signature = ''signature1'', success = True, error = None,
             outputAmount = Some ''2500000'' \<rparr>"
    by (simp add: executeOrderSwap_def executeSwap_def createSwapTransaction_def getQuote_def
        validateQuote_def new_PublicKey_def truthy_str_def quote0_def order0_def
        world0_def wallet0_def config0_def num_gt_def)
  have pending: "map_option status (getOrder ''order_1700000000000_0001'' manager1)
                 = Some PENDING"
    by (simp add: getOrder_def manager1_def order0_def)
  have began: "executeOrder_begin world0 wallet0 ''order_1700000000000_0001'' manager1
     = Inr (Inr \<lparr> signature = ''signature1'', success = True, error = None,
                  outputAmount = Some ''2500000'' \<rparr>)"
    using swap
    by (simp add: executeOrder_begin_def manager1_def manager0_def order0_def)
  have cancelled: "cancelOrder ''order_1700000000000_0001'' ''Alice'' manager1
     = (Inr (), persistOrders (manager1\<lparr> orders :=
          [(''order_1700000000000_0001'', order0\<lparr> status := CANCELLED \<rparr>)] \<rparr>))"
    by (simp add: cancelOrder_def manager1_def order0_def)
  have resumed: "executeOrder_resume ''order_1700000000000_0001''
           (Inr \<lparr> signature = ''signature1'', success = True, error = None,
                   outputAmount = Some ''2500000'' \<rparr>)
           (persistOrders (manager1\<lparr> orders :=
              [(''order_1700000000000_0001'', order0\<lparr> status := CANCELLED \<rparr>)] \<rparr>))
     = Some (Inr (), persistOrders (persistOrders (manager1\<lparr> orders :=
          [(''order_1700000000000_0001'', order0\<lparr> status := CANCELLED \<rparr>)] \<rparr>)
            \<lparr> orders := [(''order_1700000000000_0001'',
                 order0\<lparr> status := CANCELLED, transactionSignature := Some ''signature1'',
                         actualOutputAmount := Some (parseInt ''2500000''),
                         status := FULFILLED \<rparr>)] \<rparr>))"
    by (simp add: executeOrder_resume_def executeOrder_continue_def orders_persistOrders
        truthy_str_def)
  from pending began cancelled resumed show ?thesis
    by (simp add: getOrder_def orders_persistOrders)
qed
section \<open>The results of the swap-execution calls\<close>

text \<open>
  When no stage throws \<open>undefined\<close> or \<open>null\<close>, \<open>executeSwap\<close> returns a result
  (\<open>executeSwap_returns\<close>). It reports success exactly when the transaction was
  decoded, signed, sent and confirmed with no on-chain error
  (\<open>executeSwap_success_iff\<close>), and \<open>executeOrderSwap\<close> exactly when every one of its
  stages succeeded (\<open>executeOrderSwap_success_iff\<close>). A result that is not a success
  has the empty signature, and its \<open>error\<close> is the message of the thrown value,
  \<open>undefined\<close> when that value has none. A transaction that fails on chain, a wallet
  that refuses to sign, a quote service that answers with an error, and a run in which
  every stage succeeds:
\<close>

lemma swap_execution_examples:
  "executeSwap world_onchain_error wallet0 swapTx0
     = Inr \<lparr> signature = '''', success = False,
             error = Some ''Transaction failed: custom program error'', outputAmount = None \<rparr>
   \<and> executeOrderSwap world_onchain_error wallet0 order_swap0
     = Inr \<lparr> signature = '''', success = False,
             error = Some ''Transaction failed: custom program error'',
             outputAmount = Some ''2500000'' \<rparr>
   \<and> executeSwap world0 wallet_refuses swapTx0
     = Inr \<lparr> signature = '''', success = False, error = Some ''User rejected the request'',
             outputAmount = None \<rparr>
   \<and> executeOrderSwap world_no_quote wallet0 order_swap0
     = Inr \<lparr> signature = '''', success = False,
             error = Some ''Failed to get quote: Rate limited'', outputAmount = None \<rparr>
   \<and> executeSwap world0 wallet0 swapTx0
     = Inr \<lparr> signature = ''signature1'', success = True, error = None, outputAmount = None \<rparr>
   \<and> executeOrderSwap world0 wallet0 order_swap0
     = Inr \<lparr> signature = ''signature1'', success = True, error = None,
             outputAmount = Some ''2500000'' \<rparr>"
proof -
  have 1: "executeSwap world_onchain_error wallet0 swapTx0
     = Inr \<lparr> signature = '''', success = False,
             error = Some ''Transaction failed: custom program error'', outputAmount = None \<rparr>"
    by (simp add: executeSwap_def world_onchain_error_def world0_def wallet0_def swapTx0_def)
  have 2: "executeOrderSwap world_onchain_error wallet0 order_swap0
     = Inr \<lparr> signature = '''', success = False,
             error = Some ''Transaction failed: custom program error'',
             outputAmount = Some ''2500000'' \<rparr>"
    by (simp add: executeOrderSwap_def executeSwap_def createSwapTransaction_def getQuote_def
        validateQuote_def new_PublicKey_def truthy_str_def quote0_def num_gt_def
        world_onchain_error_def world0_def config0_def wallet0_def order_swap0_def)
  have 3: "executeSwap world0 wallet_refuses swapTx0
     = Inr \<lparr> signature = '''', success = False, error = Some ''User rejected the request'',
             outputAmount = None \<rparr>"
    by (simp add: executeSwap_def world0_def wallet_refuses_def swapTx0_def)
  have 4: "executeOrderSwap world_no_quote wallet0 order_swap0
     = Inr \<lparr> signature = '''', success = False,
             error = Some ''Failed to get quote: Rate limited'', outputAmount = None \<rparr>"
    by (simp add: executeOrderSwap_def getQuote_def str_or_def truthy_str_def num_gt_def
        world_no_quote_def world0_def config0_def wallet0_def order_swap0_def)
  have 5: "executeSwap world0 wallet0 swapTx0
     = Inr \<lparr> signature = ''signature1'', success = True, error = None, outputAmount = None \<rparr>"
    by (simp add: executeSwap_def world0_def wallet0_def swapTx0_def)
  have 6: "executeOrderSwap world0 wallet0 order_swap0
     = Inr \<lparr> signature = ''signature1'', success = True, error = None,
             outputAmount = Some ''2500000'' \<rparr>"
    by (simp add: executeOrderSwap_def executeSwap_def createSwapTransaction_def getQuote_def
        validateQuote_def new_PublicKey_def truthy_str_def quote0_def num_gt_def
        world0_def config0_def wallet0_def order_swap0_def)
  from 1 2 3 4 5 6 show ?thesis by (intro conjI)
qed

text \<open>
  Claim C3. The claim fails when a stage throws \<open>undefined\<close> or \<open>null\<close>. The handler of
  \<open>executeSwap\<close> builds the failure result from \<open>error.message\<close>, and reading a
  property of \<open>undefined\<close> throws a \<open>TypeError\<close> inside the handler: the call raises.
  The wallet is of type \<open>any\<close>, and here its \<open>signTransaction\<close> rejects with
  \<open>undefined\<close>. \<open>executeOrderSwap\<close> catches that \<open>TypeError\<close>, which has a message, and
  returns a failure result; it raises in the same way when one of its own stages
  throws \<open>undefined\<close> or \<open>null\<close>.
\<close>

theorem executeSwap_raises_when_rejected_with_undefined:
  "deserialize world0 (swapTransaction swapTx0)
     = Inr \<lparr> recentBlockhash = ''blockhash'', payload = ''AQAB'' \<rparr>
   \<and> signTransaction wallet_rejects_undefined
        \<lparr> recentBlockhash = ''blockhash'', payload = ''AQAB'' \<rparr> = Inl ThrownUndefined
   \<and> executeSwap world0 wallet_rejects_undefined swapTx0
     = Inl (TypeError_reading ''undefined'' ''message'')
   \<and> message (TypeError_reading ''undefined'' ''message'')
     = ''Cannot read properties of undefined (reading 'message')''
   \<and> executeOrderSwap world0 wallet_rejects_undefined order_swap0
     = Inr \<lparr> signature = '''', success = False,
             error = Some ''Cannot read properties of undefined (reading 'message')'',
             outputAmount = None \<rparr>
   \<and> executeOrderSwap
        (world0\<lparr> getAssociatedTokenAddress := (\<lambda>mint owner. Inl ThrownNull) \<rparr>)
        wallet0 order_swap0
     = Inl (TypeError_reading ''null'' ''message'')"
proof -
  have 1: "executeSwap world0 wallet_rejects_undefined swapTx0
     = Inl (TypeError_reading ''undefined'' ''message'')"
    by (simp add: executeSwap_def world0_def wallet_rejects_undefined_def swapTx0_def)
  have 2: "executeOrderSwap world0 wallet_rejects_undefined order_swap0
     = Inr \<lparr> signature = '''', success = False,
             error = Some ''Cannot read properties of undefined (reading 'message')'',
             outputAmount = None \<rparr>"
    by (simp add: executeOrderSwap_def executeSwap_def createSwapTransaction_def getQuote_def
        validateQuote_def new_PublicKey_def truthy_str_def quote0_def num_gt_def
        world0_def config0_def wallet_rejects_undefined_def order_swap0_def
        TypeError_reading_def)
  have 3: "executeOrderSwap
        (world0\<lparr> getAssociatedTokenAddress := (\<lambda>mint owner. Inl ThrownNull) \<rparr>)
        wallet0 order_swap0
     = Inl (TypeError_reading ''null'' ''message'')"
    by (simp add: executeOrderSwap_def getQuote_def validateQuote_def new_PublicKey_def
        truthy_str_def quote0_def num_gt_def world0_def config0_def wallet0_def
        order_swap0_def)
  from 1 2 3 show ?thesis
    by (simp add: world0_def swapTx0_def wallet_rejects_undefined_def TypeError_reading_def)
qed
section \<open>A failed execution is recorded and reported\<close>

text \<open>
  Claim C4. When \<open>executeOrder\<close> is called on an existing pending order and the swap
  does not succeed (whatever the stage that failed), the order becomes failed, its
  \<open>errorMessage\<close> is the message of the failure (\<open>Swap execution failed\<close> when that
  message is empty), the collection is handed to \<open>persistOrders\<close>, which writes it to
  the storage when the storage can be written, and \<open>executeOrder\<close> raises an error
  with that message.
\<close>

theorem executeOrder_failure_is_recorded:
  assumes found: "getOrder orderId s = Some order"
    and pending: "status order = PENDING"
    and swap: "executeOrderSwap w wl
                 \<lparr> order_swap.inputMint = Order.inputToken order,
                   order_swap.outputMint = Order.outputToken order,
                   order_swap.inputAmount = Order.inputAmount order,
                   order_swap.liquidityProvider = Order.liquidityProvider order,
                   order_swap.treasuryWallet = OrderManager.treasuryWallet s,
                   platformFeeBps = protocolFeeBps s \<rparr> = Inr result"
    and failed: "\<not> success result"
  shows "\<exists>msg s'.
           executeOrder w wl orderId s = (Inl (Error msg), s')
         \<and> msg = opt_str_or (error result) ''Swap execution failed''
         \<and> getOrder orderId s' = Some (order\<lparr> status := FAILED, errorMessage := Some msg \<rparr>)
         \<and> s' = persistOrders (s\<lparr> orders := orders s' \<rparr>)
         \<and> (window_defined (storage s) \<and> \<not> setItem_throws (storage s)
              \<longrightarrow> jupiter_orders (storage s') = Some (Text (entries_json (orders s'))))"
  using assms
  by (simp add: executeOrder_def executeOrder_continue_def executeOrder_catch_def getOrder_def orders_persistOrders
      map_of_update_same persistOrders_def)

text \<open>Alice's pending order, executed when the transaction fails on chain.\<close>

theorem executeOrder_failure_witness:
  "fst (executeOrder world_onchain_error wallet0 ''order_1700000000000_0001'' manager1)
     = Inl (Error ''Transaction failed: custom program error'')
   \<and> getOrder ''order_1700000000000_0001''
        (snd (executeOrder world_onchain_error wallet0 ''order_1700000000000_0001'' manager1))
     = Some (order0\<lparr> status := FAILED,
                     errorMessage := Some ''Transaction failed: custom program error'' \<rparr>)
   \<and> jupiter_orders (storage
        (snd (executeOrder world_onchain_error wallet0 ''order_1700000000000_0001'' manager1)))
     = Some (Text (entries_json (orders
        (snd (executeOrder world_onchain_error wallet0 ''order_1700000000000_0001'' manager1)))))"
proof -
  have found: "getOrder ''order_1700000000000_0001'' manager1 = Some order0"
    by (simp add: getOrder_def manager1_def)
  have pending: "status order0 = PENDING"
    by (simp add: order0_def)
  have swap: "executeOrderSwap world_onchain_error wallet0
                 \<lparr> order_swap.inputMint = Order.inputToken order0,
                   order_swap.outputMint = Order.outputToken order0,
                   order_swap.inputAmount = Order.inputAmount order0,
                   order_swap.liquidityProvider = Order.liquidityProvider order0,
                   order_swap.treasuryWallet = OrderManager.treasuryWallet manager1,
                   platformFeeBps = protocolFeeBps manager1 \<rparr>
     = Inr \<lparr> signature = '''', success = False,
             error = Some ''Transaction failed: custom program error'',
             outputAmount = Some ''2500000'' \<rparr>"
    by (simp add: executeOrderSwap_def executeSwap_def createSwapTransaction_def getQuote_def
        validateQuote_def config0_def num_gt_def new_PublicKey_def truthy_str_def quote0_def order0_def
        manager1_def manager0_def world_onchain_error_def world0_def wallet0_def)
  have window: "window_defined (storage manager1) \<and> \<not> setItem_throws (storage manager1)"
    by (simp add: manager1_def manager0_def storage0_def)
  from executeOrder_failure_is_recorded [OF found pending swap]
  obtain msg s' where
    r: "executeOrder world_onchain_error wallet0 ''order_1700000000000_0001'' manager1
          = (Inl (Error msg), s')"
       "msg = opt_str_or (Some ''Transaction failed: custom program error'')
                ''Swap execution failed''"
       "getOrder ''order_1700000000000_0001'' s'
          = Some (order0\<lparr> status := FAILED, errorMessage := Some msg \<rparr>)"
       "window_defined (storage manager1) \<and> \<not> setItem_throws (storage manager1)
          \<longrightarrow> jupiter_orders (storage s') = Some (Text (entries_json (orders s')))"
    by auto
  from r(2) have "msg = ''Transaction failed: custom program error''"
    by (simp add: str_or_def truthy_str_def)
  with r window show ?thesis by simp
qed

section \<open>Cancelling an order\<close>

text \<open>
  Claim C5. For an existing order, \<open>cancelOrder\<close> succeeds exactly when the caller is
  the creator of the order and the order is pending, and the order is then cancelled.
  A caller who is not the creator gets the authorization error; the creator of an
  order that is not pending gets the invalid-state error, which names the status (the
  creator is checked first, so a stranger gets the authorization error whatever the
  status). Whenever \<open>cancelOrder\<close> fails, for an unknown id too, the whole state is
  unchanged, every field of every order with it.
\<close>

theorem cancelOrder_outcomes:
  "(fst (cancelOrder orderId userKey s) \<noteq> Inr () \<longrightarrow> snd (cancelOrder orderId userKey s) = s)
   \<and> (getOrder orderId s = None
        \<longrightarrow> fst (cancelOrder orderId userKey s) = Inl (Error ''Order not found''))
   \<and> (\<forall>order. getOrder orderId s = Some order \<longrightarrow>
        (fst (cancelOrder orderId userKey s) = Inr ()
           \<longleftrightarrow> creator order = userKey \<and> status order = PENDING)
      \<and> (creator order \<noteq> userKey
           \<longrightarrow> fst (cancelOrder orderId userKey s)
                 = Inl (Error ''Unauthorized: Only order creator can cancel''))
      \<and> (creator order = userKey \<and> status order \<noteq> PENDING
           \<longrightarrow> fst (cancelOrder orderId userKey s)
                 = Inl (Error (''Cannot cancel order with status: ''
                                @ status_string (status order))))
      \<and> (creator order = userKey \<and> status order = PENDING
           \<longrightarrow> getOrder orderId (snd (cancelOrder orderId userKey s))
                 = Some (order\<lparr> status := CANCELLED \<rparr>)))"
  by (simp add: cancelOrder_def getOrder_def orders_persistOrders map_of_update_same
      split: option.splits)

text \<open>
  Alice cancels her pending order; Mallory may not; Alice may not cancel her order
  once it is fulfilled; an unknown id is not found.
\<close>

theorem cancelOrder_witness:
  "fst (cancelOrder ''order_1700000000000_0001'' ''Alice'' manager1) = Inr ()
   \<and> getOrder ''order_1700000000000_0001''
        (snd (cancelOrder ''order_1700000000000_0001'' ''Alice'' manager1))
     = Some (order0\<lparr> status := CANCELLED \<rparr>)
   \<and> cancelOrder ''order_1700000000000_0001'' ''Mallory'' manager1
     = (Inl (Error ''Unauthorized: Only order creator can cancel''), manager1)
   \<and> cancelOrder ''order_1700000000000_0001'' ''Alice'' manager_fulfilled
     = (Inl (Error ''Cannot cancel order with status: fulfilled''), manager_fulfilled)
   \<and> cancelOrder ''order_1700000000000_0009'' ''Alice'' manager1
     = (Inl (Error ''Order not found''), manager1)"
proof -
  have g1: "getOrder ''order_1700000000000_0001'' manager1 = Some order0"
    by (simp add: getOrder_def manager1_def)
  have g2: "getOrder ''order_1700000000000_0001'' manager_fulfilled
     = Some (order0\<lparr> status := FULFILLED, transactionSignature := Some ''signature1'',
                     actualOutputAmount := Some (Num 2500000) \<rparr>)"
    by (simp add: getOrder_def manager_fulfilled_def)
  have o: "creator order0 = ''Alice''" "status order0 = PENDING"
    by (simp_all add: order0_def)
  note a = cancelOrder_outcomes [of "''order_1700000000000_0001''" "''Alice''" manager1]
  note m = cancelOrder_outcomes [of "''order_1700000000000_0001''" "''Mallory''" manager1]
  note f = cancelOrder_outcomes [of "''order_1700000000000_0001''" "''Alice''" manager_fulfilled]
  from a g1 o have 1: "fst (cancelOrder ''order_1700000000000_0001'' ''Alice'' manager1) = Inr ()"
    by simp
  from a g1 o have 2: "getOrder ''order_1700000000000_0001''
        (snd (cancelOrder ''order_1700000000000_0001'' ''Alice'' manager1))
     = Some (order0\<lparr> status := CANCELLED \<rparr>)"
    by simp
  from m g1 o have 3: "fst (cancelOrder ''order_1700000000000_0001'' ''Mallory'' manager1)
     = Inl (Error ''Unauthorized: Only order creator can cancel'')"
    by simp
  with m have 4: "snd (cancelOrder ''order_1700000000000_0001'' ''Mallory'' manager1) = manager1"
    by simp
  from f g2 o have 5: "fst (cancelOrder ''order_1700000000000_0001'' ''Alice'' manager_fulfilled)
     = Inl (Error ''Cannot cancel order with status: fulfilled'')"
    by simp
  with f have 6: "snd (cancelOrder ''order_1700000000000_0001'' ''Alice'' manager_fulfilled)
     = manager_fulfilled"
    by simp
  note u = cancelOrder_outcomes [of "''order_1700000000000_0009''" "''Alice''" manager1]
  have g3: "getOrder ''order_1700000000000_0009'' manager1 = None"
    by (simp add: getOrder_def manager1_def)
  with u have 7: "fst (cancelOrder ''order_1700000000000_0009'' ''Alice'' manager1)
     = Inl (Error ''Order not found'')"
    by simp
  with u have 8: "snd (cancelOrder ''order_1700000000000_0009'' ''Alice'' manager1) = manager1"
    by simp
  from 1 2 3 4 5 6 7 8 show ?thesis
    by (simp add: prod_eq_iff)
qed

section \<open>Refreshing the quote of an order\<close>

text \<open>
  Claim C6. When \<open>updateOrderQuote\<close> succeeds on an order, the order was pending, a new
  quote was fetched for its tokens and amount, and the stored order is the old one with
  exactly \<open>quote\<close>, \<open>expectedOutputAmount\<close> and \<open>priceImpact\<close> replaced from the new
  quote. Every other field is as before, \<open>protocolFee\<close> in particular; so are the
  other orders, the keys of the collection and the other fields of the manager.
\<close>

theorem updateOrderQuote_frame:
  assumes found: "getOrder orderId s = Some order"
    and updated: "updateOrderQuote w orderId s = (Inr (), s')"
  shows "\<exists>newQuote order'.
           getQuote w (Order.inputToken order) (Order.outputToken order)
             (Order.inputAmount order) (Num 50) (Some (protocolFeeBps s)) = Inr newQuote
         \<and> status order = PENDING
         \<and> getOrder orderId s' = Some order'
         \<and> order' = order\<lparr> quote := newQuote,
                            expectedOutputAmount := parseInt (JupiterQuote.outAmount newQuote),
                            priceImpact := priceImpactPct newQuote \<rparr>
         \<and> protocolFee order' = protocolFee order
         \<and> status order' = status order
         \<and> (\<forall>k. k \<noteq> orderId \<longrightarrow> getOrder k s' = getOrder k s)
         \<and> map fst (orders s') = map fst (orders s)
         \<and> protocolFeeBps s' = protocolFeeBps s
         \<and> OrderManager.treasuryWallet s' = OrderManager.treasuryWallet s
         \<and> orderIdCounter s' = orderIdCounter s"
proof -
  from found updated have pending: "status order = PENDING"
    by (simp add: updateOrderQuote_def updateOrderQuote_continue_def getOrder_def split: if_splits)
  from found updated pending obtain newQuote where
    q: "getQuote w (Order.inputToken order) (Order.outputToken order)
             (Order.inputAmount order) (Num 50) (Some (protocolFeeBps s)) = Inr newQuote"
    by (cases "getQuote w (Order.inputToken order) (Order.outputToken order)
             (Order.inputAmount order) (Num 50) (Some (protocolFeeBps s))")
       (simp_all add: updateOrderQuote_def updateOrderQuote_continue_def getOrder_def)
  from found updated pending q have s':
    "s' = persistOrders (s\<lparr> orders := AList.update orderId
            (order\<lparr> quote := newQuote,
                    expectedOutputAmount := parseInt (JupiterQuote.outAmount newQuote),
                    priceImpact := priceImpactPct newQuote \<rparr>) (orders s) \<rparr>)"
    by (simp add: updateOrderQuote_def updateOrderQuote_continue_def getOrder_def)
  from found have keys: "orderId \<in> fst ` set (orders s)"
    by (auto simp: getOrder_def dest: map_of_SomeD intro: rev_image_eqI)
  show ?thesis
    using pending q keys
    by (simp add: s' getOrder_def orders_persistOrders map_of_update_same map_of_update_other
        update_keys persistOrders_def)
qed

text \<open>
  Alice's order was quoted at 2400000 with fee 10000; the refreshed quote gives
  2500000, and the fee stays. Carol's order, in the same collection, stays as it is.
\<close>

theorem updateOrderQuote_witness:
  "fst (updateOrderQuote world0 ''order_1700000000000_0001'' manager2) = Inr ()
   \<and> getOrder ''order_1700000000000_0001''
        (snd (updateOrderQuote world0 ''order_1700000000000_0001'' manager2))
     = Some (order0\<lparr> quote := quote0, expectedOutputAmount := Num 2500000,
                     priceImpact := ''0.01'' \<rparr>)
   \<and> map_option protocolFee (getOrder ''order_1700000000000_0001''
        (snd (updateOrderQuote world0 ''order_1700000000000_0001'' manager2)))
     = Some (Num 10000)
   \<and> getOrder ''order_1700000000300_0002''
        (snd (updateOrderQuote world0 ''order_1700000000000_0001'' manager2))
     = Some order1"
proof -
  have found: "getOrder ''order_1700000000000_0001'' manager2 = Some order0"
    by (simp add: getOrder_def manager2_def)
  have other: "getOrder ''order_1700000000300_0002'' manager2 = Some order1"
    by (simp add: getOrder_def manager2_def)
  have q: "getQuote world0 (Order.inputToken order0) (Order.outputToken order0)
             (Order.inputAmount order0) (Num 50) (Some (protocolFeeBps manager2)) = Inr quote0"
    by (simp add: getQuote_def world0_def validateQuote_def config0_def num_gt_def quote0_def
        truthy_str_def order0_def)
  have ok: "fst (updateOrderQuote world0 ''order_1700000000000_0001'' manager2) = Inr ()"
    using q by (simp add: updateOrderQuote_def updateOrderQuote_continue_def manager2_def order0_def)
  then have u: "updateOrderQuote world0 ''order_1700000000000_0001'' manager2
      = (Inr (), snd (updateOrderQuote world0 ''order_1700000000000_0001'' manager2))"
    by (simp add: prod_eq_iff)
  from updateOrderQuote_frame [OF found u] q
  have "getOrder ''order_1700000000000_0001''
        (snd (updateOrderQuote world0 ''order_1700000000000_0001'' manager2))
     = Some (order0\<lparr> quote := quote0,
                     expectedOutputAmount := parseInt (JupiterQuote.outAmount quote0),
                     priceImpact := priceImpactPct quote0 \<rparr>)"
    and "\<forall>k. k \<noteq> ''order_1700000000000_0001''
          \<longrightarrow> getOrder k (snd (updateOrderQuote world0 ''order_1700000000000_0001'' manager2))
              = getOrder k manager2"
    by auto
  moreover have "parseInt (JupiterQuote.outAmount quote0) = Num 2500000"
    by (simp add: quote0_def parseInt_eval)
  moreover have "priceImpactPct quote0 = ''0.01''" "protocolFee order0 = Num 10000"
    by (simp_all add: quote0_def order0_def)
  ultimately show ?thesis using ok other by simp
qed

section \<open>The id counter after a restart\<close>

text \<open>
  \<open>importOrders\<close> replaces the collection and leaves the counter as it is, so the next
  id can be one of the imported ids. The manager that was constructed from Alice's
  order has the counter \<open>1\<close>; after the import of an order under an id with the number
  \<open>2\<close>, \<open>createOrder\<close> at the clock reading of that id returns that id.
\<close>

lemma importOrders_then_id_reissued:
  "importOrders (Text (entries_json [(''order_1700000000900_0002'', order_imported)]))
     manager_restarted = Some (Inr (), manager_imported)
   \<and> orderIdCounter manager_imported = 1
   \<and> fst (createOrder world0 1700000000900 1700000000901 (params0 1000000) ''Alice''
        manager_imported) = Inr ''order_1700000000900_0002''
   \<and> ''order_1700000000900_0002'' \<in> fst ` set (orders manager_imported)"
proof -
  have proper: "numbers_proper order_imported"
    by (simp add: numbers_proper_def order_imported_def order0_def)
  have 1: "importOrders (Text (entries_json [(''order_1700000000900_0002'', order_imported)]))
     manager_restarted = Some (Inr (), manager_imported)"
    by (simp add: importOrders_def Map_entries_json new_Map_distinct read_Order_json [OF proper]
        manager_imported_def entries_json_not_null)
  have 2: "fst (createOrder world0 1700000000900 1700000000901 (params0 1000000) ''Alice''
        manager_imported) = Inr ''order_1700000000900_0002''"
    by (simp add: createOrder_def validateOrderParams_def params0_def world0_def
        manager_imported_def manager_restarted_def truthy_str_def getQuote_def
        validateQuote_def quote0_def generateOrderId_def increment_small padStart_def digit_char_def
        toString_nat.simps replicate_numeral persistOrders_def storage1_def storage0_def
        num_le_def)
  from 1 2 show ?thesis
    by (simp add: manager_imported_def manager_restarted_def counter_persistOrders
        orders_persistOrders)
qed

text \<open>
  At \<open>2^53\<close> the counter no longer counts: \<open>2^53 + 1\<close> is not a double, and the sum
  rounds back to \<open>2^53\<close>. The manager constructed from a storage that holds an id with
  the number \<open>2^53\<close> has the counter \<open>2^53\<close>, and \<open>createOrder\<close> at the clock reading
  of that id returns that id.
\<close>

lemma id_reissued_at_limit:
  "new_OrderManager config0 storage_limit None None = Some manager_limit
   \<and> orderIdCounter manager_limit = 2 ^ 53
   \<and> fst (createOrder world0 1700000000900 1700000000901 (params0 1000000) ''Alice''
        manager_limit) = Inr ''order_1700000000900_9007199254740992''
   \<and> ''order_1700000000900_9007199254740992'' \<in> fst ` set (orders manager_limit)"
proof -
  have n: "id_number ''order_1700000000900_9007199254740992'' = 9007199254740992"
    by (simp add: id_number_def index_def parseInt_eval)
  have proper: "numbers_proper order_limit"
    by (simp add: numbers_proper_def order_limit_def order0_def)
  have 1: "new_OrderManager config0 storage_limit None None = Some manager_limit"
    by (simp add: new_OrderManager_def loadPersistedOrders_def storage_limit_def storage0_def
        config0_def manager_limit_def Map_entries_json new_Map_distinct
        read_Order_json [OF proper] Math_max0_def n)
  have 2: "fst (createOrder world0 1700000000900 1700000000901 (params0 1000000) ''Alice''
        manager_limit) = Inr ''order_1700000000900_9007199254740992''"
    by (simp add: createOrder_def validateOrderParams_def params0_def world0_def
        manager_limit_def truthy_str_def getQuote_def validateQuote_def quote0_def
        generateOrderId_def increment_at_limit padStart_def digit_char_def
        toString_nat.simps num_le_def)
  from 1 2 show ?thesis by (simp add: manager_limit_def)
qed



section \<open>Export and import\<close>

text \<open>
  Claim C8, as amended. For every collection of orders in which every number is a
  number proper, that is finite (\<open>JSON.stringify\<close> writes \<open>NaN\<close> and the infinities as
  \<open>null\<close>), \<open>importOrders(exportOrders())\<close> succeeds and reproduces the collection: the
  same ids in the same order, with the same orders. The keys of a \<open>Map\<close> are distinct.
\<close>

theorem import_export_round_trip:
  assumes keys: "distinct (map fst (orders s))"
    and proper: "list_all (numbers_proper \<circ> snd) (orders s)"
  shows "importOrders (exportOrders s) s = Some (Inr (), persistOrders s)
       \<and> orders (persistOrders s) = orders s"
  using assms
  by (simp add: importOrders_def exportOrders_def reads_export entries_json_not_null
      orders_persistOrders)

text \<open>The manager that holds Alice's order.\<close>

theorem import_export_witness:
  "map_option fst (importOrders (exportOrders manager1) manager1) = Some (Inr ())
   \<and> map_option (orders \<circ> snd) (importOrders (exportOrders manager1) manager1)
     = Some [(''order_1700000000000_0001'', order0)]"
proof -
  have m: "orders manager1 = [(''order_1700000000000_0001'', order0)]"
    by (simp add: manager1_def)
  have keys: "distinct (map fst (orders manager1))"
    by (simp add: m)
  have proper: "list_all (numbers_proper \<circ> snd) (orders manager1)"
    by (simp add: m numbers_proper_def order0_def)
  from import_export_round_trip [OF keys proper] m show ?thesis
    by simp
qed

text \<open>
  The claim as it was stated fails. When the quote service reports the amount
  \<open>n/a\<close>, \<open>createOrder\<close> stores an order whose \<open>expectedOutputAmount\<close> is
  \<open>parseInt('n/a')\<close>, that is \<open>NaN\<close>. The exported text has \<open>null\<close> in its place, and
  what \<open>importOrders\<close> reads back from it is not the collection that was exported: the
  order has \<open>null\<close> where it had \<open>NaN\<close>.
\<close>

theorem import_export_nan_counterexample:
  "fst (createOrder world_nan_quote 1700000000000 1700000000001 (params0 1000000)
          ''Alice'' manager0) = Inr ''order_1700000000000_0001''
   \<and> orders manager_nan = [(''order_1700000000000_0001'', order_nan)]
   \<and> expectedOutputAmount order_nan = NaN
   \<and> property (Order_json order_nan) ''expectedOutputAmount'' = Some JNull
   \<and> map_option (orders \<circ> snd) (importOrders (exportOrders manager_nan) manager_nan)
     \<noteq> Some (orders manager_nan)"
proof -
  have c: "createOrder world_nan_quote 1700000000000 1700000000001 (params0 1000000)
             ''Alice'' manager0
     = (Inr ''order_1700000000000_0001'',
        persistOrders (manager0\<lparr> orderIdCounter := 1,
          orders := [(''order_1700000000000_0001'', order_nan)] \<rparr>))"
    by (simp add: createOrder_def validateOrderParams_def params0_def world_nan_quote_def
        world0_def manager0_def truthy_str_def getQuote_def validateQuote_def config0_def num_gt_def quote0_def
        generateOrderId_def increment_small padStart_def digit_char_def toString_nat.simps replicate_numeral
        order_nan_def parseInt_eval str_or_def num_le_def num_times_def num_divide_def)
  then have m: "orders manager_nan = [(''order_1700000000000_0001'', order_nan)]"
    by (simp add: manager_nan_def orders_persistOrders)
  have n: "expectedOutputAmount order_nan = NaN"
    by (simp add: order_nan_def)
  have p: "property (Order_json order_nan) ''expectedOutputAmount'' = Some JNull"
    by (simp add: Order_json_def order_nan_def)
  have "read_Order (Order_json order_nan) = Some (order_nan\<lparr> expectedOutputAmount := Null \<rparr>)"
    by (simp add: Order_json_def order_nan_def required_def optional_def absent_or_def
        read_status_def read_JupiterQuote_json)
  then have imp: "map_option (orders \<circ> snd)
                    (importOrders (exportOrders manager_nan) manager_nan)
     = Some [(''order_1700000000000_0001'', order_nan\<lparr> expectedOutputAmount := Null \<rparr>)]"
    by (simp add: importOrders_def exportOrders_def m Map_entries_json new_Map_distinct
        entries_json_not_null orders_persistOrders)
  have ne: "order_nan\<lparr> expectedOutputAmount := Null \<rparr> \<noteq> order_nan"
    by (simp add: order_nan_def)
  have "map_option (orders \<circ> snd) (importOrders (exportOrders manager_nan) manager_nan)
     \<noteq> Some (orders manager_nan)"
    unfolding imp m using ne by simp
  with c m n p show ?thesis by simp
qed
section \<open>Orders requiring attention\<close>

text \<open>
  Claim C9. An order is in the result of \<open>getOrdersRequiringAttention\<close> if and only if
  it is an order of the collection and either it is failed, or it is pending and the
  time elapsed since its timestamp exceeds the window of five minutes (300000
  milliseconds).
\<close>

theorem requiring_attention_iff:
  "order \<in> set (getOrdersRequiringAttention now s)
   \<longleftrightarrow> order \<in> snd ` set (orders s)
       \<and> (status order = FAILED
          \<or> status order = PENDING
            \<and> num_gt (num_minus (Num (of_nat now)) (timestamp order)) (Num 300000))"
  by (auto simp: getOrdersRequiringAttention_def requires_attention_def QUOTE_EXPIRY_TIME_def)

text \<open>
  Alice's pending order has the timestamp 1700000000001. Ten minutes later it
  requires attention, one minute later it does not; once failed it does at any time.
\<close>

theorem requiring_attention_witness:
  "order0 \<in> set (getOrdersRequiringAttention 1700000600001 manager1)
   \<and> order0 \<notin> set (getOrdersRequiringAttention 1700000060001 manager1)
   \<and> order0\<lparr> status := FAILED \<rparr>
       \<in> set (getOrdersRequiringAttention 1700000060001
                (manager1\<lparr> orders := [(''order_1700000000000_0001'',
                                       order0\<lparr> status := FAILED \<rparr>)] \<rparr>))"
proof -
  have o: "status order0 = PENDING" "timestamp order0 = Num 1700000000001"
    by (simp_all add: order0_def)
  have m: "orders manager1 = [(''order_1700000000000_0001'', order0)]"
    by (simp add: manager1_def)
  from requiring_attention_iff [of order0 1700000600001 manager1] o m
  have 1: "order0 \<in> set (getOrdersRequiringAttention 1700000600001 manager1)"
    by (simp add: num_gt_def num_minus_def fl_numeral)
  from requiring_attention_iff [of order0 1700000060001 manager1] o m
  have 2: "order0 \<notin> set (getOrdersRequiringAttention 1700000060001 manager1)"
    by (simp add: num_gt_def num_minus_def fl_numeral)
  from requiring_attention_iff [of "order0\<lparr> status := FAILED \<rparr>" 1700000060001
      "manager1\<lparr> orders := [(''order_1700000000000_0001'', order0\<lparr> status := FAILED \<rparr>)] \<rparr>"]
  have 3: "order0\<lparr> status := FAILED \<rparr>
       \<in> set (getOrdersRequiringAttention 1700000060001
                (manager1\<lparr> orders := [(''order_1700000000000_0001'',
                                       order0\<lparr> status := FAILED \<rparr>)] \<rparr>))"
    by simp
  from 1 2 3 show ?thesis by simp
qed

section \<open>The quote used by an execution\<close>

text \<open>
  Claim C10. Whenever \<open>executeOrder\<close> succeeds on an order, \<open>executeOrderSwap\<close> has
  fetched a quote for the tokens and the amount of the order at that moment, the
  transaction that was signed and sent was built from that quote, and the
  \<open>actualOutputAmount\<close> of the order is \<open>parseInt\<close> of the \<open>outAmount\<close> of that quote. That
  \<open>outAmount\<close> is never empty, so the fallback to the stored \<open>expectedOutputAmount\<close> is
  not taken. The quote stored with the order plays no part: with any other stored
  quote, expected output and price impact the execution succeeds as well and records
  the same \<open>actualOutputAmount\<close>.
\<close>

theorem executeOrder_uses_fresh_quote:
  assumes found: "getOrder orderId s = Some order"
    and executed: "executeOrder w wl orderId s = (Inr (), s')"
  shows "\<exists>q treasuryTokenAccount lpTokenAccount swapTx result.
           getQuote w (Order.inputToken order) (Order.outputToken order)
             (Order.inputAmount order) (DEFAULT_SLIPPAGE (config w))
             (Some (protocolFeeBps s)) = Inr q
         \<and> truthy_str (JupiterQuote.outAmount q)
         \<and> createSwapTransaction w q (publicKey wl)
               \<lparr> swap_options.feeAccount = Some treasuryTokenAccount,
                 swap_options.destinationTokenAccount = Some lpTokenAccount,
                 priorityFeeConfig = None,
                 swap_options.dynamicSlippage = None,
                 swap_options.dynamicComputeUnitLimit = None \<rparr> = Inr swapTx
         \<and> executeSwap w wl swapTx = Inr result
         \<and> success result
         \<and> getOrder orderId s'
             = Some (order\<lparr> transactionSignature := Some (signature result),
                             actualOutputAmount := Some (parseInt (JupiterQuote.outAmount q)),
                             status := FULFILLED \<rparr>)
         \<and> (\<forall>q0 e0 p0.
               fst (executeOrder w wl orderId
                     (s\<lparr> orders := AList.update orderId
                           (order\<lparr> quote := q0, expectedOutputAmount := e0,
                                   priceImpact := p0 \<rparr>) (orders s) \<rparr>)) = Inr ()
             \<and> map_option actualOutputAmount (getOrder orderId
                  (snd (executeOrder w wl orderId
                     (s\<lparr> orders := AList.update orderId
                           (order\<lparr> quote := q0, expectedOutputAmount := e0,
                                   priceImpact := p0 \<rparr>) (orders s) \<rparr>))))
               = Some (Some (parseInt (JupiterQuote.outAmount q))))"
proof -
  let ?ord = "\<lparr> order_swap.inputMint = Order.inputToken order,
                order_swap.outputMint = Order.outputToken order,
                order_swap.inputAmount = Order.inputAmount order,
                order_swap.liquidityProvider = Order.liquidityProvider order,
                order_swap.treasuryWallet = OrderManager.treasuryWallet s,
                platformFeeBps = protocolFeeBps s \<rparr>"
  from executeOrder_succeeded [OF found executed]
  obtain r where pending: "status order = PENDING"
    and r: "executeOrderSwap w wl ?ord = Inr r" and succ: "success r"
    by blast
  from executeOrderSwap_success [OF r succ]
  obtain q treasuryTokenAccount lpTokenAccount swapTx r0 where
    q: "getQuote w (Order.inputToken order) (Order.outputToken order)
             (Order.inputAmount order) (DEFAULT_SLIPPAGE (config w))
             (Some (protocolFeeBps s)) = Inr q"
    and tx: "createSwapTransaction w q (publicKey wl)
               \<lparr> swap_options.feeAccount = Some treasuryTokenAccount,
                 swap_options.destinationTokenAccount = Some lpTokenAccount,
                 priorityFeeConfig = None,
                 swap_options.dynamicSlippage = None,
                 swap_options.dynamicComputeUnitLimit = None \<rparr> = Inr swapTx"
    and r0: "executeSwap w wl swapTx = Inr r0"
    and rr: "r = r0\<lparr> outputAmount := Some (JupiterQuote.outAmount q) \<rparr>"
    by auto
  from getQuote_valid [OF q] have nonempty: "truthy_str (JupiterQuote.outAmount q)" .
  from succ rr have succ0: "success r0" by simp
  from found executed pending r succ rr nonempty
  have stored: "getOrder orderId s'
             = Some (order\<lparr> transactionSignature := Some (signature r0),
                             actualOutputAmount := Some (parseInt (JupiterQuote.outAmount q)),
                             status := FULFILLED \<rparr>)"
    by (auto simp: executeOrder_def executeOrder_continue_def getOrder_def orders_persistOrders map_of_update_same)
  have indep: "\<forall>q0 e0 p0.
               fst (executeOrder w wl orderId
                     (s\<lparr> orders := AList.update orderId
                           (order\<lparr> quote := q0, expectedOutputAmount := e0,
                                   priceImpact := p0 \<rparr>) (orders s) \<rparr>)) = Inr ()
             \<and> map_option actualOutputAmount (getOrder orderId
                  (snd (executeOrder w wl orderId
                     (s\<lparr> orders := AList.update orderId
                           (order\<lparr> quote := q0, expectedOutputAmount := e0,
                                   priceImpact := p0 \<rparr>) (orders s) \<rparr>))))
               = Some (Some (parseInt (JupiterQuote.outAmount q)))"
    using pending r succ rr nonempty
    by (simp add: executeOrder_def executeOrder_continue_def getOrder_def orders_persistOrders map_of_update_same)
  from q nonempty tx r0 succ0 stored indep show ?thesis by blast
qed

text \<open>
  Alice's order was quoted at 2400000 when it was created. At execution the service
  quotes 2500000, and that is the amount recorded.
\<close>

theorem executeOrder_fresh_quote_witness:
  "expectedOutputAmount order0 = Num 2400000
   \<and> fst (executeOrder world0 wallet0 ''order_1700000000000_0001'' manager1) = Inr ()
   \<and> getOrder ''order_1700000000000_0001''
        (snd (executeOrder world0 wallet0 ''order_1700000000000_0001'' manager1))
     = Some (order0\<lparr> transactionSignature := Some ''signature1'',
                     actualOutputAmount := Some (Num 2500000),
                     status := FULFILLED \<rparr>)"
proof -
  have found: "getOrder ''order_1700000000000_0001'' manager1 = Some order0"
    by (simp add: getOrder_def manager1_def)
  have q0: "getQuote world0 (Order.inputToken order0) (Order.outputToken order0)
             (Order.inputAmount order0) (DEFAULT_SLIPPAGE (config world0))
             (Some (protocolFeeBps manager1)) = Inr quote0"
    by (simp add: getQuote_def world0_def validateQuote_def config0_def num_gt_def quote0_def
        truthy_str_def order0_def)
  have ok: "fst (executeOrder world0 wallet0 ''order_1700000000000_0001'' manager1) = Inr ()"
    and sig: "map_option transactionSignature (getOrder ''order_1700000000000_0001''
        (snd (executeOrder world0 wallet0 ''order_1700000000000_0001'' manager1)))
      = Some (Some ''signature1'')"
    by (simp_all add: executeOrder_def executeOrder_continue_def manager1_def manager0_def order0_def
        executeOrderSwap_def executeSwap_def createSwapTransaction_def getQuote_def
        validateQuote_def config0_def num_gt_def new_PublicKey_def truthy_str_def quote0_def
        world0_def wallet0_def getOrder_def orders_persistOrders)
  from ok have u: "executeOrder world0 wallet0 ''order_1700000000000_0001'' manager1
      = (Inr (), snd (executeOrder world0 wallet0 ''order_1700000000000_0001'' manager1))"
    by (simp add: prod_eq_iff)
  from executeOrder_uses_fresh_quote [OF found u]
  obtain q and result :: TransactionResult where
    q: "getQuote world0 (Order.inputToken order0) (Order.outputToken order0)
             (Order.inputAmount order0) (DEFAULT_SLIPPAGE (config world0))
             (Some (protocolFeeBps manager1)) = Inr q"
    and g: "getOrder ''order_1700000000000_0001''
        (snd (executeOrder world0 wallet0 ''order_1700000000000_0001'' manager1))
     = Some (order0\<lparr> transactionSignature := Some (signature result),
                     actualOutputAmount := Some (parseInt (JupiterQuote.outAmount q)),
                     status := FULFILLED \<rparr>)"
    by blast
  from q q0 have "q = quote0" by simp
  moreover have "parseInt (JupiterQuote.outAmount quote0) = Num 2500000"
    by (simp add: quote0_def parseInt_eval)
  moreover from g sig have "signature result = ''signature1''"
    by simp
  moreover have "expectedOutputAmount order0 = Num 2400000"
    by (simp add: order0_def)
  ultimately show ?thesis using ok g by simp
qed

end
